theory Spec2Isabelle
  imports Main "HOL-Library.AList"
begin

section \<open>Python strings and the library functions the tutor calls\<close>

text \<open>
  A Python \<open>str\<close> is a sequence of Unicode code points, so it is modelled as a list of
  natural numbers (\<open>ustr\<close>); \<open>ascii\<close> turns an ASCII literal into such a list.
  The methods of \<open>str\<close> and the constructors \<open>int\<close> and \<open>date\<close> belong to the
  Python library, not to the repository; they are modelled here as far as the tutor
  uses them:
  \<^item> \<open>py_strip\<close> removes the code points for which \<open>str.isspace\<close> holds from both ends;
  \<^item> \<open>py_lower\<close> maps the upper-case letters of ASCII, Latin-1 and the Cyrillic block
    (U+0400 to U+042F) to their lower-case code points and leaves every other code point
    as it is (the case tables of the other scripts are not modelled);
  \<^item> \<open>py_replace\<close> is \<open>str.replace\<close> for a pattern and a replacement of one code point;
  \<^item> \<open>py_split\<close> is \<open>str.split\<close> with a separator of one code point;
  \<^item> \<open>py_int\<close> is \<open>int(s)\<close> in base ten on ASCII digits, with surrounding white space,
    one sign and single underscores between digits; \<open>None\<close> stands for ValueError.
\<close>

type_synonym ustr = "nat list"

definition ascii :: "string \<Rightarrow> ustr" where
  "ascii s = map of_char s"

definition isspace :: "nat \<Rightarrow> bool" where
  "isspace c \<longleftrightarrow>
     (0x09 \<le> c \<and> c \<le> 0x0D) \<or> (0x1C \<le> c \<and> c \<le> 0x20) \<or> c = 0x85 \<or> c = 0xA0 \<or>
     c = 0x1680 \<or> (0x2000 \<le> c \<and> c \<le> 0x200A) \<or> c = 0x2028 \<or> c = 0x2029 \<or>
     c = 0x202F \<or> c = 0x205F \<or> c = 0x3000"

definition py_strip :: "ustr \<Rightarrow> ustr" where
  "py_strip s = rev (dropWhile isspace (rev (dropWhile isspace s)))"

definition lower_cp :: "nat \<Rightarrow> nat" where
  "lower_cp c =
     (if 0x41 \<le> c \<and> c \<le> 0x5A then c + 0x20
      else if 0xC0 \<le> c \<and> c \<le> 0xDE \<and> c \<noteq> 0xD7 then c + 0x20
      else if 0x400 \<le> c \<and> c \<le> 0x40F then c + 0x50
      else if 0x410 \<le> c \<and> c \<le> 0x42F then c + 0x20
      else c)"

definition py_lower :: "ustr \<Rightarrow> ustr" where
  "py_lower s = map lower_cp s"

definition py_replace :: "nat \<Rightarrow> nat \<Rightarrow> ustr \<Rightarrow> ustr" where
  "py_replace old new s = map (\<lambda>c. if c = old then new else c) s"

fun py_split :: "nat \<Rightarrow> ustr \<Rightarrow> ustr list" where
  "py_split sep [] = [[]]"
| "py_split sep (c # cs) =
     (if c = sep then [] # py_split sep cs
      else (case py_split sep cs of
              [] \<Rightarrow> [[c]]
            | p # ps \<Rightarrow> (c # p) # ps))"

definition is_digit :: "nat \<Rightarrow> bool" where
  "is_digit c \<longleftrightarrow> 0x30 \<le> c \<and> c \<le> 0x39"

fun int_digits :: "int \<Rightarrow> bool \<Rightarrow> ustr \<Rightarrow> int option" where
  "int_digits acc prev [] = (if prev then Some acc else None)"
| "int_digits acc prev (c # cs) =
     (if is_digit c then int_digits (10 * acc + (int c - 0x30)) True cs
      else if c = 0x5F \<and> prev then
        (case cs of
           [] \<Rightarrow> None
         | d # _ \<Rightarrow> if is_digit d then int_digits acc False cs else None)
      else None)"

definition py_int :: "ustr \<Rightarrow> int option" where
  "py_int s =
     (case py_strip s of
        [] \<Rightarrow> None
      | c # cs \<Rightarrow>
          if c = 0x2D then map_option uminus (int_digits 0 False cs)
          else if c = 0x2B then int_digits 0 False cs
          else int_digits 0 False (c # cs))"

section \<open>Answer normalisation\<close>

text \<open>
  \<^verbatim>\<open>return answer.strip().lower().replace('yo', 'ye')\<close>, where the two letters are the
  Cyrillic small letters io (U+0451) and ie (U+0435).
\<close>

definition process_answer :: "ustr \<Rightarrow> ustr" where
  "process_answer answer = py_replace 0x451 0x435 (py_lower (py_strip answer))"


section \<open>Calendar dates\<close>

text \<open>
  \<open>datetime.date\<close> of the Python library: \<open>py_date y m d\<close> is the proleptic Gregorian
  ordinal of the date (\<open>date.toordinal\<close>), or ValueError when the triple is not a date;
  an argument that does not fit a C \<open>int\<close> raises OverflowError in CPython.
  The difference of two dates in days is the difference of their ordinals, and
  \<open>date.today()\<close> is an input of the model, given as an ordinal.
\<close>

datatype exc = IndexError | KeyError | TypeError | ValueError | AttributeError | OverflowError
  | PermissionError

definition is_leap :: "int \<Rightarrow> bool" where
  "is_leap y \<longleftrightarrow> y mod 4 = 0 \<and> (if y mod 100 = 0 then y mod 400 = 0 else True)"

definition days_in_month :: "int \<Rightarrow> int \<Rightarrow> int" where
  "days_in_month y m =
     (if m = 2 then (if is_leap y then 29 else 28)
      else if m = 4 \<or> m = 6 \<or> m = 9 \<or> m = 11 then 30
      else 31)"

definition days_before_year :: "int \<Rightarrow> int" where
  "days_before_year y = (y - 1) * 365 + (y - 1) div 4 - (y - 1) div 100 + (y - 1) div 400"

definition days_before_month :: "int \<Rightarrow> int \<Rightarrow> int" where
  "days_before_month y m = sum_list (map (days_in_month y) [1..m - 1])"

definition c_int :: "int \<Rightarrow> bool" where
  "c_int n \<longleftrightarrow> - (2 ^ 31) \<le> n \<and> n < 2 ^ 31"

definition py_date :: "int \<Rightarrow> int \<Rightarrow> int \<Rightarrow> exc + int" where
  "py_date y m d =
     (if c_int y \<and> c_int m \<and> c_int d then
        (if 1 \<le> y \<and> y \<le> 9999 \<and> 1 \<le> m \<and> m \<le> 12 \<and> 1 \<le> d \<and> d \<le> days_in_month y m
         then Inr (days_before_year y + days_before_month y m + d)
         else Inl ValueError)
      else Inl OverflowError)"

definition py_index :: "'a list \<Rightarrow> nat \<Rightarrow> exc + 'a" where
  "py_index xs i = (if i < length xs then Inr (xs ! i) else Inl IndexError)"

text \<open>
  The date parsing of \<open>get_item\<close>, in Python's evaluation order:
  \<^verbatim>\<open>
  learning_date = item.learning_date.split('-')
  learning_date = date(year=int(learning_date[0]), month=int(learning_date[1]),
                       day=int(learning_date[2]))
  \<close>
\<close>

definition int_at :: "ustr list \<Rightarrow> nat \<Rightarrow> exc + int" where
  "int_at parts i =
     (case py_index parts i of
        Inl e \<Rightarrow> Inl e
      | Inr p \<Rightarrow> (case py_int p of None \<Rightarrow> Inl ValueError | Some n \<Rightarrow> Inr n))"

definition parse_learning_date :: "ustr \<Rightarrow> exc + int" where
  "parse_learning_date s =
     (let parts = py_split 0x2D s in
      case int_at parts 0 of
        Inl e \<Rightarrow> Inl e
      | Inr y \<Rightarrow>
          (case int_at parts 1 of
             Inl e \<Rightarrow> Inl e
           | Inr m \<Rightarrow>
               (case int_at parts 2 of
                  Inl e \<Rightarrow> Inl e
                | Inr d \<Rightarrow> py_date y m d)))"

section \<open>Values, records of the vocabulary and items\<close>

text \<open>
  The cells of the vocabulary are Python values: \<open>None\<close> (a key the dict does not
  have, read with \<open>dict.get\<close>), NaN (a blank cell of the file read by pandas), a number
  or a string. Numbers are modelled as integers.

  Modelled from the spec: the module \<open>constants\<close> is not part of the sources. Its column
  names \<open>WORD\<close>, \<open>TRANSCRIPTION\<close>, \<open>TRANSLATION\<close>, \<open>SUCCESS_NUMBER\<close> and \<open>LEARNING_DATE\<close>
  are the five distinct columns of the file that the spec lists (\<open>OTHER\<close> is any further
  column), and \<open>COMING_BACK_TIME\<close> is a parameter \<open>cbt\<close> of the functions that read it.

  One record of \<open>self.vocabulary\<close> is a Python dict, modelled as an association list.
\<close>

datatype pyval = PNone | PNan | PInt int | PStr ustr

datatype column = WORD | TRANSCRIPTION | TRANSLATION | SUCCESS_NUMBER | LEARNING_DATE
  | OTHER ustr

type_synonym row = "(column \<times> pyval) list"

definition dict_get :: "row \<Rightarrow> column \<Rightarrow> pyval" where
  "dict_get d k = (case map_of d k of None \<Rightarrow> PNone | Some v \<Rightarrow> v)"

text \<open>Truth value of a Python value (\<open>if item.word:\<close>); NaN is a non-zero float.\<close>

fun truthy :: "pyval \<Rightarrow> bool" where
  "truthy PNone = False"
| "truthy PNan = True"
| "truthy (PInt n) = (n \<noteq> 0)"
| "truthy (PStr s) = (s \<noteq> [])"

text \<open>\<open>a + k\<close>, \<open>a < m\<close> and \<open>a >= m\<close> for an integer \<open>k\<close> or \<open>m\<close>.\<close>

fun py_add :: "pyval \<Rightarrow> int \<Rightarrow> exc + pyval" where
  "py_add (PInt n) k = Inr (PInt (n + k))"
| "py_add PNan k = Inr PNan"
| "py_add PNone k = Inl TypeError"
| "py_add (PStr s) k = Inl TypeError"

fun py_lt :: "pyval \<Rightarrow> int \<Rightarrow> exc + bool" where
  "py_lt (PInt n) m = Inr (n < m)"
| "py_lt PNan m = Inr False"
| "py_lt PNone m = Inl TypeError"
| "py_lt (PStr s) m = Inl TypeError"

fun py_ge :: "pyval \<Rightarrow> int \<Rightarrow> exc + bool" where
  "py_ge (PInt n) m = Inr (m \<le> n)"
| "py_ge PNan m = Inr False"
| "py_ge PNone m = Inl TypeError"
| "py_ge (PStr s) m = Inl TypeError"

text \<open>
  Class \<open>WTItem\<close>. Its attribute \<open>vocabulary\<close> refers to the list the item was read from
  and is only printed by \<open>__repr__\<close>; it is left out. \<open>WTItem_init\<close> is the constructor
  called with a vocabulary and an index, \<open>WTItem_empty\<close> is \<open>WTItem()\<close>, which reads
  the empty dict.
\<close>

record WTItem =
  index :: "nat option"
  word :: pyval
  transcription :: pyval
  translation :: pyval
  success_number :: pyval
  learning_date :: pyval

definition WTItem_init :: "row list \<Rightarrow> nat \<Rightarrow> exc + WTItem" where
  "WTItem_init vocabulary i =
     (case py_index vocabulary i of
        Inl e \<Rightarrow> Inl e
      | Inr d \<Rightarrow>
          Inr \<lparr>index = Some i,
               word = dict_get d WORD,
               transcription = dict_get d TRANSCRIPTION,
               translation = dict_get d TRANSLATION,
               success_number = dict_get d SUCCESS_NUMBER,
               learning_date = dict_get d LEARNING_DATE\<rparr>)"

definition WTItem_empty :: WTItem where
  "WTItem_empty =
     \<lparr>index = None,
      word = dict_get [] WORD,
      transcription = dict_get [] TRANSCRIPTION,
      translation = dict_get [] TRANSLATION,
      success_number = dict_get [] SUCCESS_NUMBER,
      learning_date = dict_get [] LEARNING_DATE\<rparr>"

section \<open>Class WordsTutor\<close>

text \<open>
  The lines the program prints are events; \<open>stdout\<close> collects them in order.
\<close>

datatype event =
    Start
  | NotRepeated pyval pyval
  | WordPrompt pyval
  | OldWordSuccesses pyval pyval
  | WillBeSkipped pyval
  | RightAnswer pyval
  | WrongAnswer "ustr list" pyval
  | Successes pyval
  | ErrorPrinted exc
  | LearnedWords nat nat
  | CloseTheFile

text \<open>
  \<open>vocabulary\<close> is the list of dicts, \<open>vocabulary_frame\<close> the pandas frame, modelled as
  the list of its rows (the row label is the position). \<open>max_success_number\<close> is an
  integer: \<open>main\<close> only starts a run with a positive one.
\<close>

record tutor =
  vocabulary :: "row list"
  vocabulary_frame :: "row list"
  max_success_number :: int
  stdout :: "event list"

definition say :: "tutor \<Rightarrow> event \<Rightarrow> tutor" where
  "say self e = self\<lparr>stdout := stdout self @ [e]\<rparr>"

definition vocabulary_size :: "tutor \<Rightarrow> nat" where
  "vocabulary_size self = length (vocabulary self)"

text \<open>
  \<open>__update_item_in_vocabulary\<close>: two assignments into the dict at \<open>item.index\<close>.
  Indexing the list with \<open>None\<close> raises TypeError, with an index out of range IndexError.
\<close>

definition set_learning_state :: "WTItem \<Rightarrow> row \<Rightarrow> row" where
  "set_learning_state item d =
     AList.update SUCCESS_NUMBER (success_number item)
       (AList.update LEARNING_DATE (learning_date item) d)"

definition update_item_in_vocabulary :: "tutor \<Rightarrow> WTItem \<Rightarrow> exc + tutor" where
  "update_item_in_vocabulary self item =
     (case index item of
        None \<Rightarrow> Inl TypeError
      | Some i \<Rightarrow>
          if i < length (vocabulary self)
          then Inr (self\<lparr>vocabulary :=
                 (vocabulary self)[i := set_learning_state item (vocabulary self ! i)]\<rparr>)
          else Inl IndexError)"

text \<open>
  \<open>__update_item_in_frame\<close>: two assignments through \<open>.loc\<close>. For a label the frame
  does not have, pandas adds a row; the model appends a row with the two cells. The
  drill loop only passes items that \<open>get_item\<close> returned for an index in range.
\<close>

definition update_item_in_frame :: "tutor \<Rightarrow> WTItem \<Rightarrow> tutor" where
  "update_item_in_frame self item =
     (case index item of
        None \<Rightarrow> self\<lparr>vocabulary_frame := vocabulary_frame self @ [set_learning_state item []]\<rparr>
      | Some i \<Rightarrow>
          if i < length (vocabulary_frame self)
          then self\<lparr>vocabulary_frame :=
                 (vocabulary_frame self)[i := set_learning_state item (vocabulary_frame self ! i)]\<rparr>
          else self\<lparr>vocabulary_frame := vocabulary_frame self @ [set_learning_state item []]\<rparr>)"

text \<open>
  The test of \<open>get_item\<close> on the learning date:
  \<^verbatim>\<open>if str(item.learning_date) not in ('', 'None', 'nan'):\<close> followed by the parsing
  and \<^verbatim>\<open>(date.today() - learning_date).days > con.COMING_BACK_TIME\<close>. A number has no
  method \<open>split\<close> (AttributeError).
\<close>

definition due_for_review :: "int \<Rightarrow> pyval \<Rightarrow> int \<Rightarrow> exc + bool" where
  "due_for_review cbt ld today =
     (case ld of
        PNone \<Rightarrow> Inr False
      | PNan \<Rightarrow> Inr False
      | PInt n \<Rightarrow> Inl AttributeError
      | PStr s \<Rightarrow>
          if s = [] \<or> s = ascii ''None'' \<or> s = ascii ''nan'' then Inr False
          else (case parse_learning_date s of
                  Inl e \<Rightarrow> Inl e
                | Inr d \<Rightarrow> Inr (cbt < today - d)))"

definition come_back :: "tutor \<Rightarrow> WTItem \<Rightarrow> exc + (WTItem \<times> tutor)" where
  "come_back self item =
     (let self1 = say self (NotRepeated (word item) (learning_date item));
          item1 = item\<lparr>learning_date := PStr [], success_number := PInt 0\<rparr>
      in case update_item_in_vocabulary self1 item1 of
           Inl e \<Rightarrow> Inl e
         | Inr self2 \<Rightarrow> Inr (item1, update_item_in_frame self2 item1))"

definition get_item :: "int \<Rightarrow> tutor \<Rightarrow> nat \<Rightarrow> int \<Rightarrow> exc + (WTItem \<times> tutor)" where
  "get_item cbt self i today =
     (case py_index (vocabulary self) i of
        Inl e \<Rightarrow> Inl e
      | Inr d \<Rightarrow>
          if d = [] then Inr (WTItem_empty, self)
          else
            (case WTItem_init (vocabulary self) i of
               Inl e \<Rightarrow> Inl e
             | Inr item \<Rightarrow>
                 (case due_for_review cbt (learning_date item) today of
                    Inl e \<Rightarrow> Inl e
                  | Inr due \<Rightarrow>
                      (case (if due then come_back self item else Inr (item, self)) of
                         Inl e \<Rightarrow> Inl e
                       | Inr (item1, self1) \<Rightarrow>
                           (case py_lt (success_number item1) (max_success_number self1) of
                              Inl e \<Rightarrow> Inl e
                            | Inr below \<Rightarrow>
                                if below then Inr (item1, self1)
                                else Inr (WTItem_empty, self1))))))"

text \<open>
  \<open>print_result\<close>: \<^verbatim>\<open>(self.vocabulary_frame[con.SUCCESS_NUMBER] >= self.max_success_number).sum()\<close>.
  The column is there when every row has the cell (KeyError otherwise); a blank cell
  compares false, a string cell cannot be compared with a number (TypeError).
\<close>

fun cell_ge :: "int \<Rightarrow> pyval \<Rightarrow> exc + bool" where
  "cell_ge m (PInt n) = Inr (m \<le> n)"
| "cell_ge m PNan = Inr False"
| "cell_ge m PNone = Inr False"
| "cell_ge m (PStr s) = Inl TypeError"

fun frame_column :: "row list \<Rightarrow> column \<Rightarrow> exc + pyval list" where
  "frame_column [] c = Inr []"
| "frame_column (r # rs) c =
     (case map_of r c of
        None \<Rightarrow> Inl KeyError
      | Some v \<Rightarrow> (case frame_column rs c of Inl e \<Rightarrow> Inl e | Inr vs \<Rightarrow> Inr (v # vs)))"

fun count_ge :: "int \<Rightarrow> pyval list \<Rightarrow> exc + nat" where
  "count_ge m [] = Inr 0"
| "count_ge m (v # vs) =
     (case cell_ge m v of
        Inl e \<Rightarrow> Inl e
      | Inr b \<Rightarrow>
          (case count_ge m vs of
             Inl e \<Rightarrow> Inl e
           | Inr k \<Rightarrow> Inr (if b then Suc k else k)))"

definition print_result :: "tutor \<Rightarrow> exc + tutor" where
  "print_result self =
     (case frame_column (vocabulary_frame self) SUCCESS_NUMBER of
        Inl e \<Rightarrow> Inl e
      | Inr vs \<Rightarrow>
          (case count_ge (max_success_number self) vs of
             Inl e \<Rightarrow> Inl e
           | Inr points \<Rightarrow> Inr (say self (LearnedWords points (vocabulary_size self)))))"

text \<open>
  \<open>save_vocabulary\<close>. The sink is an input of the model: the list gives, for each call
  of \<open>to_csv\<close> in turn, whether the file is locked (PermissionError); after the end of
  the list the file stays free. The result is what the file holds and what was printed:
  \<open>Written\<close> when the method returns, \<open>Denied\<close> when PermissionError leaves it, which
  only the second call of \<open>to_csv\<close> (in the \<open>else\<close> branch, outside the \<open>try\<close>) can do.
\<close>

datatype flush = Written "row list" tutor | Denied "row list" tutor

fun save_vocabulary :: "tutor \<Rightarrow> bool list \<Rightarrow> flush" where
  "save_vocabulary self [] = Written (vocabulary_frame self) self"
| "save_vocabulary self (locked # rest) =
     (if locked then save_vocabulary (say self CloseTheFile) rest
      else (case rest of
              [] \<Rightarrow> Written (vocabulary_frame self) self
            | locked2 # _ \<Rightarrow>
                if locked2 then Denied (vocabulary_frame self) self
                else Written (vocabulary_frame self) self))"

section \<open>The drill loop\<close>

text \<open>
  The local variables of \<open>run\<close> and the tutor itself make up the state of a session.
  \<open>old_item\<close> is \<open>None\<close> after the assignment \<^verbatim>\<open>old_item = None\<close>.

  What one pass of the loop reads from outside: the number \<open>randint\<close> draws (reduced
  modulo the size to a position), the day of each of the two calls of \<open>get_item\<close>, and
  the lines typed at the first prompt and at the prompt after a correction.
\<close>

record session =
  self :: tutor
  old_item :: "WTItem option"
  is_last_wrong :: bool

record turn_env =
  rnd :: nat
  today_first :: int
  answer_first :: ustr
  answer_second :: ustr
  today_last :: int

text \<open>
  How a pass of the loop body ends: it reaches the end of the body or a \<open>continue\<close>
  (\<open>Next\<close>), a \<open>break\<close> (\<open>Stop\<close>), or an exception is raised inside the \<open>try\<close>.
\<close>

datatype signal = Next | Stop | Raised exc

text \<open>Lines 334 and 335: \<^verbatim>\<open>print(f"Successes: ..."); old_item = self.get_item(index=index)\<close>.\<close>

definition finish_turn :: "int \<Rightarrow> session \<Rightarrow> nat \<Rightarrow> WTItem \<Rightarrow> int \<Rightarrow> signal \<times> session" where
  "finish_turn cbt s i item today =
     (let t = say (self s) (Successes (success_number item))
      in case get_item cbt t i today of
           Inl e \<Rightarrow> (Raised e, s\<lparr>self := t\<rparr>)
         | Inr (it, t1) \<Rightarrow> (Next, s\<lparr>self := t1, old_item := Some it\<rparr>))"

text \<open>Lines 316 to 333: grading the answer against \<open>right_answers\<close>.\<close>

definition grade ::
  "int \<Rightarrow> session \<Rightarrow> nat \<Rightarrow> WTItem \<Rightarrow> ustr list \<Rightarrow> ustr \<Rightarrow> int \<Rightarrow> signal \<times> session" where
  "grade cbt s i item right_answers answer today =
     (if answer \<in> set right_answers then
        (let s1 = s\<lparr>self := say (self s) (RightAnswer (transcription item)), is_last_wrong := False\<rparr>
         in case py_add (success_number item) 1 of
              Inl e \<Rightarrow> (Raised e, s1)
            | Inr n \<Rightarrow>
                (let item1 = item\<lparr>success_number := n\<rparr>;
                     s2 = s1\<lparr>self := update_item_in_frame (self s1) item1\<rparr>
                 in case py_ge n (max_success_number (self s2)) of
                      Inl e \<Rightarrow> (Raised e, s2)
                    | Inr reached \<Rightarrow>
                        if reached
                        then (Next, s2\<lparr>self := say (self s2) (WillBeSkipped (word item1))\<rparr>)
                        else finish_turn cbt s2 i item1 today))
      else
        (let s1 = s\<lparr>self := say (self s) (WrongAnswer right_answers (transcription item)),
                     is_last_wrong := True\<rparr>
         in case py_add (success_number item) (- 1) of
              Inl e \<Rightarrow> (Raised e, s1)
            | Inr n \<Rightarrow>
                (case (if answer = [] then py_add n (- 1) else Inr n) of
                   Inl e \<Rightarrow> (Raised e, s1)
                 | Inr n1 \<Rightarrow>
                     (let item1 = item\<lparr>success_number := n1\<rparr>;
                          s2 = s1\<lparr>self := update_item_in_frame (self s1) item1\<rparr>
                      in finish_turn cbt s2 i item1 today))))"

text \<open>
  Lines 298 to 308: the correction of the previous answer. The result says whether an
  exception was raised on the way.
\<close>

definition bonus_correction :: "session \<Rightarrow> exc option \<times> session" where
  "bonus_correction s =
     (case old_item s of
        None \<Rightarrow> (Some AttributeError, s)
      | Some old \<Rightarrow>
          (case py_add (success_number old) 2 of
             Inl e \<Rightarrow> (Some e, s)
           | Inr n \<Rightarrow>
               (let old1 = old\<lparr>success_number := n\<rparr>;
                    t1 = update_item_in_frame (say (self s) (OldWordSuccesses (word old1) n)) old1;
                    s1 = s\<lparr>self := t1, old_item := Some old1\<rparr>
                in case py_ge n (max_success_number t1) of
                     Inl e \<Rightarrow> (Some e, s1)
                   | Inr reached \<Rightarrow>
                       if reached
                       then (None, s1\<lparr>self := say t1 (WillBeSkipped (word old1)),
                                     old_item := None\<rparr>)
                       else (None, s1))))"

text \<open>Lines 284 to 335: the body of the \<open>try\<close>.\<close>

definition turn :: "int \<Rightarrow> session \<Rightarrow> turn_env \<Rightarrow> signal \<times> session" where
  "turn cbt s env =
     (if vocabulary_size (self s) = 0 then (Raised ValueError, s)
      else
        (let i = rnd env mod vocabulary_size (self s)
         in case get_item cbt (self s) i (today_first env) of
              Inl e \<Rightarrow> (Raised e, s)
            | Inr (item, t1) \<Rightarrow>
                if truthy (word item) then
                  (case translation item of
                     PStr tr \<Rightarrow>
                       (let right_answers = map process_answer (py_split 0x2C tr);
                            s2 = s\<lparr>self := say t1 (WordPrompt (word item))\<rparr>;
                            answer = process_answer (answer_first env)
                        in if answer = ascii ''-1'' then (Stop, s2)
                           else if answer = ascii ''+'' \<and> is_last_wrong s2 then
                             (case bonus_correction s2 of
                                (Some e, s3) \<Rightarrow> (Raised e, s3)
                              | (None, s3) \<Rightarrow>
                                  (let s4 = s3\<lparr>self := say (self s3) (WordPrompt (word item))\<rparr>;
                                       answer2 = process_answer (answer_second env)
                                   in if answer2 = ascii ''-1'' then (Stop, s4)
                                      else grade cbt s4 i item right_answers answer2
                                             (today_last env)))
                           else grade cbt s2 i item right_answers answer (today_last env))
                   | _ \<Rightarrow> (Raised AttributeError, s\<lparr>self := t1\<rparr>))
                else (Next, s\<lparr>self := t1\<rparr>)))"

text \<open>
  The \<open>while True\<close> loop with its \<open>try\<close>: the four classes of the \<open>except\<close> clause are
  printed and end the loop, any other exception leaves \<open>run\<close>. The loop reads one
  \<open>turn_env\<close> per pass; \<open>Pending\<close> is the state of a loop that has read them all and is
  still running.
\<close>

definition caught :: "exc \<Rightarrow> bool" where
  "caught e \<longleftrightarrow> e = IndexError \<or> e = KeyError \<or> e = TypeError \<or> e = ValueError"

datatype outcome = Pending session | Exited session | Escaped exc session

fun loop :: "int \<Rightarrow> session \<Rightarrow> turn_env list \<Rightarrow> outcome" where
  "loop cbt s [] = Pending s"
| "loop cbt s (env # envs) =
     (case turn cbt s env of
        (Next, s1) \<Rightarrow> loop cbt s1 envs
      | (Stop, s1) \<Rightarrow> Exited s1
      | (Raised e, s1) \<Rightarrow>
          if caught e then Exited (s1\<lparr>self := say (self s1) (ErrorPrinted e)\<rparr>)
          else Escaped e s1)"

text \<open>
  \<open>run\<close>: the first \<open>get_item\<close> (line 279, before the \<open>try\<close>), the loop, then
  \<open>print_result\<close> and \<open>save_vocabulary\<close>. An exception that leaves \<open>run\<close> is \<open>Crashed\<close>.
\<close>

datatype ending = Running session | Crashed exc tutor | Finalized flush

definition finalize :: "tutor \<Rightarrow> bool list \<Rightarrow> ending" where
  "finalize t locks =
     (case print_result t of
        Inl e \<Rightarrow> Crashed e t
      | Inr t1 \<Rightarrow> Finalized (save_vocabulary t1 locks))"

definition run :: "int \<Rightarrow> tutor \<Rightarrow> int \<Rightarrow> turn_env list \<Rightarrow> bool list \<Rightarrow> ending" where
  "run cbt t today envs locks =
     (case get_item cbt t 0 today of
        Inl e \<Rightarrow> Crashed e t
      | Inr (old, t0) \<Rightarrow>
          (case loop cbt \<lparr>self = say t0 Start, old_item = Some old, is_last_wrong = False\<rparr> envs of
             Pending s \<Rightarrow> Running s
           | Escaped e s \<Rightarrow> Crashed e (self s)
           | Exited s \<Rightarrow> finalize (self s) locks))"

section \<open>Auxiliary definitions for the proofs\<close>

text \<open>
  The item that \<open>WTItem_init\<close> builds for a position in range, the item and the tutor after
  the reset that \<open>come_back\<close> performs.
\<close>

definition item_at :: "row list \<Rightarrow> nat \<Rightarrow> WTItem" where
  "item_at v i =
     \<lparr>index = Some i,
      word = dict_get (v ! i) WORD,
      transcription = dict_get (v ! i) TRANSCRIPTION,
      translation = dict_get (v ! i) TRANSLATION,
      success_number = dict_get (v ! i) SUCCESS_NUMBER,
      learning_date = dict_get (v ! i) LEARNING_DATE\<rparr>"

definition reset_item :: "WTItem \<Rightarrow> WTItem" where
  "reset_item item = item\<lparr>learning_date := PStr [], success_number := PInt 0\<rparr>"

definition reset_tutor :: "tutor \<Rightarrow> nat \<Rightarrow> tutor" where
  "reset_tutor t i =
     update_item_in_frame
       (say t (NotRepeated (dict_get (vocabulary t ! i) WORD)
                 (dict_get (vocabulary t ! i) LEARNING_DATE))
          \<lparr>vocabulary := (vocabulary t)
             [i := set_learning_state (reset_item (item_at (vocabulary t) i)) (vocabulary t ! i)]\<rparr>)
       (reset_item (item_at (vocabulary t) i))"

text \<open>
  Predicates of the invariants of the loop: an item that \<open>get_item\<close> read from a record
  with a word and a number of successes, the state in which a correction of the previous
  answer finds such an item, and a frame whose column of successes \<open>print_result\<close> can
  compare with a number.
\<close>

definition is_number :: "pyval \<Rightarrow> bool" where
  "is_number v = (case v of PInt n \<Rightarrow> True | _ \<Rightarrow> False)"

definition real_item :: "nat \<Rightarrow> WTItem \<Rightarrow> bool" where
  "real_item len it \<longleftrightarrow>
     (case index it of None \<Rightarrow> False | Some i \<Rightarrow> i < len) \<and>
     truthy (word it) \<and> is_number (success_number it)"

definition retry_ready :: "session \<Rightarrow> bool" where
  "retry_ready s \<longleftrightarrow>
     (if is_last_wrong s
      then (case old_item s of
              None \<Rightarrow> False
            | Some old \<Rightarrow> real_item (vocabulary_size (self s)) old)
      else True)"

definition cell_ok :: "row \<Rightarrow> bool" where
  "cell_ok r =
     (case map_of r SUCCESS_NUMBER of
        None \<Rightarrow> False
      | Some v \<Rightarrow> (case v of PStr s \<Rightarrow> False | _ \<Rightarrow> True))"

definition success_column_ok :: "row list \<Rightarrow> bool" where
  "success_column_ok frame = list_all cell_ok frame"

text \<open>
  A record from which \<open>get_item\<close> returns its item on any day when \<open>max_success_number\<close>
  is positive, and the number of rows of a frame that \<open>print_result\<close> counts.
\<close>

definition drillable :: "int \<Rightarrow> tutor \<Rightarrow> nat \<Rightarrow> bool" where
  "drillable cbt t i \<longleftrightarrow>
     i < length (vocabulary t) \<and>
     truthy (dict_get (vocabulary t ! i) WORD) \<and>
     py_lt (dict_get (vocabulary t ! i) SUCCESS_NUMBER) (max_success_number t) = Inr True \<and>
     0 < max_success_number t \<and>
     (case due_for_review cbt (dict_get (vocabulary t ! i) LEARNING_DATE) 0 of
        Inl e \<Rightarrow> False
      | Inr b \<Rightarrow> True)"

definition comparable :: "pyval \<Rightarrow> bool" where
  "comparable v = (case v of PStr s \<Rightarrow> False | _ \<Rightarrow> True)"



text \<open>
  Examples: a vocabulary of the one word \<open>cat\<close> with a Cyrillic translation, the item
  \<open>get_item\<close> reads from it, a pass of the loop in which a given line is typed, and a
  vocabulary of two records, the second with a learning date that is no date.
\<close>

definition kot :: ustr where
  "kot = [0x43A, 0x43E, 0x442]"

definition cat_row :: "int \<Rightarrow> pyval \<Rightarrow> row" where
  "cat_row n ld =
     [(WORD, PStr (ascii ''cat'')), (TRANSCRIPTION, PStr (ascii ''kat'')),
      (TRANSLATION, PStr kot), (SUCCESS_NUMBER, PInt n), (LEARNING_DATE, ld)]"

definition cat_item :: "int \<Rightarrow> pyval \<Rightarrow> WTItem" where
  "cat_item n ld =
     \<lparr>index = Some 0, word = PStr (ascii ''cat''), transcription = PStr (ascii ''kat''),
      translation = PStr kot, success_number = PInt n, learning_date = ld\<rparr>"

definition cat_tutor :: "int \<Rightarrow> pyval \<Rightarrow> int \<Rightarrow> tutor" where
  "cat_tutor n ld m =
     \<lparr>vocabulary = [cat_row n ld], vocabulary_frame = [cat_row n ld],
      max_success_number = m, stdout = []\<rparr>"

definition typed :: "ustr \<Rightarrow> turn_env" where
  "typed a =
     \<lparr>rnd = 0, today_first = 739000, answer_first = a, answer_second = [],
      today_last = 739000\<rparr>"


section \<open>Properties of the normalisation\<close>










section \<open>Properties of \<open>get_item\<close>\<close>

lemma update_not_Nil: "AList.update k v d \<noteq> []"
  by (cases d) auto

lemma dict_get_update:
  "dict_get (AList.update k v d) k' = (if k' = k then v else dict_get d k')"
  by (simp add: dict_get_def update_conv')

lemma set_learning_state_not_Nil: "set_learning_state item d \<noteq> []"
  by (simp add: set_learning_state_def update_not_Nil)

lemma dict_get_set_learning_state:
  "dict_get (set_learning_state item d) k =
     (if k = SUCCESS_NUMBER then success_number item
      else if k = LEARNING_DATE then learning_date item
      else dict_get d k)"
  by (simp add: set_learning_state_def dict_get_update)

lemma py_lt_True: "py_lt v m = Inr True \<longleftrightarrow> (\<exists>n. v = PInt n \<and> n < m)"
  by (cases v) auto

lemma py_ge_True: "py_ge v m = Inr True \<longleftrightarrow> (\<exists>n. v = PInt n \<and> m \<le> n)"
  by (cases v) auto

lemma word_WTItem_empty: "word WTItem_empty = PNone"
  by (simp add: WTItem_empty_def dict_get_def)

lemma come_back_result:
  assumes "index item = Some i" and "i < length (vocabulary t)"
  shows "come_back t item =
    Inr (item\<lparr>learning_date := PStr [], success_number := PInt 0\<rparr>,
         update_item_in_frame
           (say t (NotRepeated (word item) (learning_date item))
              \<lparr>vocabulary := (vocabulary t)
                 [i := set_learning_state (item\<lparr>learning_date := PStr [], success_number := PInt 0\<rparr>)
                        (vocabulary t ! i)]\<rparr>)
           (item\<lparr>learning_date := PStr [], success_number := PInt 0\<rparr>))"
  using assms by (simp add: come_back_def update_item_in_vocabulary_def say_def Let_def)

lemma update_item_in_frame_fields:
  "vocabulary (update_item_in_frame t item) = vocabulary t"
  "max_success_number (update_item_in_frame t item) = max_success_number t"
  "stdout (update_item_in_frame t item) = stdout t"
  by (simp_all add: update_item_in_frame_def split: option.splits)

lemma say_fields:
  "vocabulary (say t e) = vocabulary t"
  "vocabulary_frame (say t e) = vocabulary_frame t"
  "max_success_number (say t e) = max_success_number t"
  "stdout (say t e) = stdout t @ [e]"
  by (simp_all add: say_def)

lemma WTItem_init_fields:
  assumes "i < length v"
  shows "WTItem_init v i = Inr \<lparr>index = Some i, word = dict_get (v ! i) WORD,
           transcription = dict_get (v ! i) TRANSCRIPTION,
           translation = dict_get (v ! i) TRANSLATION,
           success_number = dict_get (v ! i) SUCCESS_NUMBER,
           learning_date = dict_get (v ! i) LEARNING_DATE\<rparr>"
  using assms by (simp add: WTItem_init_def py_index_def)

lemma get_item_unfold:
  assumes "i < length (vocabulary t)" and "vocabulary t ! i \<noteq> []"
  shows "get_item cbt t i today =
     (case due_for_review cbt (dict_get (vocabulary t ! i) LEARNING_DATE) today of
        Inl e \<Rightarrow> Inl e
      | Inr due \<Rightarrow>
          if due then
            (if 0 < max_success_number t then Inr (reset_item (item_at (vocabulary t) i), reset_tutor t i)
             else Inr (WTItem_empty, reset_tutor t i))
          else
            (case py_lt (dict_get (vocabulary t ! i) SUCCESS_NUMBER) (max_success_number t) of
               Inl e \<Rightarrow> Inl e
             | Inr below \<Rightarrow> if below then Inr (item_at (vocabulary t) i, t) else Inr (WTItem_empty, t)))"
proof -
  have init: "WTItem_init (vocabulary t) i = Inr (item_at (vocabulary t) i)"
    using assms(1) by (simp add: WTItem_init_fields item_at_def)
  have cb: "come_back t (item_at (vocabulary t) i) = Inr (reset_item (item_at (vocabulary t) i), reset_tutor t i)"
    using come_back_result [of "item_at (vocabulary t) i" i t] assms(1)
    by (simp add: item_at_def reset_item_def reset_tutor_def)
  have mx: "max_success_number (reset_tutor t i) = max_success_number t"
    by (simp add: reset_tutor_def update_item_in_frame_fields say_def)
  have li: "learning_date (item_at (vocabulary t) i) = dict_get (vocabulary t ! i) LEARNING_DATE"
    "success_number (item_at (vocabulary t) i) = dict_get (vocabulary t ! i) SUCCESS_NUMBER"
    "success_number (reset_item (item_at (vocabulary t) i)) = PInt 0"
    by (simp_all add: item_at_def reset_item_def)
  show ?thesis
  proof (cases "due_for_review cbt (dict_get (vocabulary t ! i) LEARNING_DATE) today")
    case (Inl e)
    then show ?thesis
      using assms by (simp add: get_item_def py_index_def init li)
  next
    case (Inr due)
    show ?thesis
    proof (cases due)
      case True
      with Inr show ?thesis
        using assms by (simp add: get_item_def py_index_def init li cb mx)
    next
      case False
      with Inr show ?thesis
        using assms by (simp add: get_item_def py_index_def init li split: sum.splits)
    qed
  qed
qed


lemma get_item_empty_dict:
  assumes "i < length (vocabulary t)" and "vocabulary t ! i = []"
  shows "get_item cbt t i today = Inr (WTItem_empty, t)"
  using assms by (simp add: get_item_def py_index_def)

lemma get_item_out_of_range:
  assumes "length (vocabulary t) \<le> i"
  shows "get_item cbt t i today = Inl IndexError"
  using assms by (simp add: get_item_def py_index_def)

lemma reset_tutor_fields:
  "max_success_number (reset_tutor t i) = max_success_number t"
  "stdout (reset_tutor t i) =
     stdout t @ [NotRepeated (dict_get (vocabulary t ! i) WORD)
                   (dict_get (vocabulary t ! i) LEARNING_DATE)]"
  "vocabulary (reset_tutor t i) =
     (vocabulary t)[i := set_learning_state (reset_item (item_at (vocabulary t) i)) (vocabulary t ! i)]"
  by (simp_all add: reset_tutor_def update_item_in_frame_fields say_def)

lemma reset_tutor_frame:
  assumes "i < length (vocabulary_frame t)"
  shows "vocabulary_frame (reset_tutor t i) =
     (vocabulary_frame t)[i := set_learning_state (reset_item (item_at (vocabulary t) i))
                                 (vocabulary_frame t ! i)]"
  using assms by (simp add: reset_tutor_def update_item_in_frame_def say_def item_at_def reset_item_def)

text \<open>
  C7. For an index in range, an item that get_item returns with a word has a
  success number below max_success_number; when the record, after the reset of a stale
  learning date, holds a success number of at least max_success_number, the item returned
  is the empty one.
\<close>

theorem get_item_below_max:
  assumes "i < length (vocabulary t)"
    and "get_item cbt t i today = Inr (it, t')"
  shows "(word it \<noteq> PNone \<longrightarrow>
            (\<exists>n. success_number it = PInt n \<and> n < max_success_number t) \<and>
            py_ge (success_number it) (max_success_number t) = Inr False) \<and>
         (py_ge (dict_get (vocabulary t' ! i) SUCCESS_NUMBER) (max_success_number t) = Inr True
            \<longrightarrow> it = WTItem_empty)"
proof (cases "vocabulary t ! i = []")
  case True
  with assms have "it = WTItem_empty"
    by (simp add: get_item_empty_dict)
  then show ?thesis
    by (simp add: word_WTItem_empty)
next
  case False
  note unf = get_item_unfold [OF assms(1) False, of cbt today]
  show ?thesis
  proof (cases "due_for_review cbt (dict_get (vocabulary t ! i) LEARNING_DATE) today")
    case (Inl e)
    with unf assms(2) show ?thesis by simp
  next
    case (Inr due)
    show ?thesis
    proof (cases due)
      case True
      with Inr unf assms(2)
      have "(0 < max_success_number t \<and> it = reset_item (item_at (vocabulary t) i)
               \<and> t' = reset_tutor t i) \<or> it = WTItem_empty"
        by (auto split: if_splits)
      then show ?thesis
        using assms(1)
        by (auto simp: reset_item_def word_WTItem_empty reset_tutor_fields
              dict_get_set_learning_state)
    next
      case False
      with Inr unf assms(2)
      have r: "(py_lt (dict_get (vocabulary t ! i) SUCCESS_NUMBER) (max_success_number t) = Inr True
                 \<and> it = item_at (vocabulary t) i \<and> t' = t) \<or>
               (py_lt (dict_get (vocabulary t ! i) SUCCESS_NUMBER) (max_success_number t) = Inr False
                 \<and> it = WTItem_empty)"
        by (auto split: sum.splits if_splits)
      then show ?thesis
      proof
        assume a: "py_lt (dict_get (vocabulary t ! i) SUCCESS_NUMBER) (max_success_number t) = Inr True
                 \<and> it = item_at (vocabulary t) i \<and> t' = t"
        then obtain n where "dict_get (vocabulary t ! i) SUCCESS_NUMBER = PInt n" "n < max_success_number t"
          by (auto simp: py_lt_True)
        with a show ?thesis
          by (simp add: item_at_def)
      next
        assume "py_lt (dict_get (vocabulary t ! i) SUCCESS_NUMBER) (max_success_number t) = Inr False
                 \<and> it = WTItem_empty"
        then show ?thesis
          by (simp add: word_WTItem_empty)
      qed
    qed
  qed
qed


lemma parse_unset:
  "parse_learning_date [] = Inl ValueError"
  "parse_learning_date (ascii ''None'') = Inl ValueError"
  "parse_learning_date (ascii ''nan'') = Inl ValueError"
  by (simp_all add: parse_learning_date_def int_at_def py_index_def py_int_def py_strip_def
        isspace_def is_digit_def ascii_def)

lemma due_for_review_parsed:
  assumes "parse_learning_date s = Inr d"
  shows "due_for_review cbt (PStr s) today = Inr (cbt < today - d)"
proof -
  from assms have "s \<noteq> []" "s \<noteq> ascii ''None''" "s \<noteq> ascii ''nan''"
    using parse_unset by auto
  with assms show ?thesis
    by (simp add: due_for_review_def)
qed

lemma due_for_review_cleared: "due_for_review cbt (PStr []) today = Inr False"
  by (simp add: due_for_review_def)

lemma get_item_after_reset:
  assumes "i < length (vocabulary t)"
  shows "get_item cbt (reset_tutor t i) i today =
     Inr (if 0 < max_success_number t then item_at (vocabulary (reset_tutor t i)) i else WTItem_empty,
          reset_tutor t i)"
proof -
  let ?t = "reset_tutor t i"
  have len: "i < length (vocabulary ?t)"
    using assms by (simp add: reset_tutor_fields)
  have row: "vocabulary ?t ! i =
      set_learning_state (reset_item (item_at (vocabulary t) i)) (vocabulary t ! i)"
    using assms by (simp add: reset_tutor_fields)
  have ne: "vocabulary ?t ! i \<noteq> []"
    by (simp add: row set_learning_state_not_Nil)
  have ld: "dict_get (vocabulary ?t ! i) LEARNING_DATE = PStr []"
    and sn: "dict_get (vocabulary ?t ! i) SUCCESS_NUMBER = PInt 0"
    by (simp_all add: row dict_get_set_learning_state reset_item_def)
  show ?thesis
    by (simp add: get_item_unfold [OF len ne] ld sn due_for_review_cleared reset_tutor_fields(1))
qed

text \<open>
  C4. When the learning date of the record at an index in range is a string that
  parses as a calendar date more than COMING_BACK_TIME days before today, get_item
  returns, the record holds the success number 0 and the empty learning date afterwards,
  in the vocabulary and in the frame, and the notice is printed; any later call of
  get_item on that index returns and leaves the tutor as it is (no second reset, no
  second notice).
\<close>

theorem get_item_comes_back_once:
  assumes "i < length (vocabulary t)" and "i < length (vocabulary_frame t)"
    and "dict_get (vocabulary t ! i) LEARNING_DATE = PStr s"
    and "parse_learning_date s = Inr d"
    and "cbt < today - d"
  shows "\<exists>it t'. get_item cbt t i today = Inr (it, t') \<and>
      dict_get (vocabulary t' ! i) SUCCESS_NUMBER = PInt 0 \<and>
      dict_get (vocabulary t' ! i) LEARNING_DATE = PStr [] \<and>
      dict_get (vocabulary_frame t' ! i) SUCCESS_NUMBER = PInt 0 \<and>
      dict_get (vocabulary_frame t' ! i) LEARNING_DATE = PStr [] \<and>
      stdout t' = stdout t @ [NotRepeated (dict_get (vocabulary t ! i) WORD) (PStr s)] \<and>
      (\<forall>today'. \<exists>it'. get_item cbt t' i today' = Inr (it', t'))"
proof -
  let ?t = "reset_tutor t i"
  have ne: "vocabulary t ! i \<noteq> []"
    using assms(3) by (auto simp: dict_get_def)
  have due: "due_for_review cbt (dict_get (vocabulary t ! i) LEARNING_DATE) today = Inr True"
    using assms(3-5) by (simp add: due_for_review_parsed)
  have ret: "get_item cbt t i today =
      Inr (if 0 < max_success_number t then reset_item (item_at (vocabulary t) i) else WTItem_empty, ?t)"
    by (simp add: get_item_unfold [OF assms(1) ne] due)
  have voc: "dict_get (vocabulary ?t ! i) SUCCESS_NUMBER = PInt 0"
    "dict_get (vocabulary ?t ! i) LEARNING_DATE = PStr []"
    using assms(1) by (simp_all add: reset_tutor_fields dict_get_set_learning_state reset_item_def)
  have frm: "dict_get (vocabulary_frame ?t ! i) SUCCESS_NUMBER = PInt 0"
    "dict_get (vocabulary_frame ?t ! i) LEARNING_DATE = PStr []"
    using assms(2) by (simp_all add: reset_tutor_frame dict_get_set_learning_state reset_item_def)
  have out: "stdout ?t = stdout t @ [NotRepeated (dict_get (vocabulary t ! i) WORD) (PStr s)]"
    using assms(3) by (simp add: reset_tutor_fields)
  have again: "\<forall>today'. \<exists>it'. get_item cbt ?t i today' = Inr (it', ?t)"
    using get_item_after_reset [OF assms(1)] by blast
  from ret voc frm out again show ?thesis
    by blast
qed

subsection \<open>The two properties at a vocabulary of one word\<close>

lemmas item_defs = get_item_def come_back_def due_for_review_def update_item_in_frame_def
  update_item_in_vocabulary_def set_learning_state_def WTItem_init_def WTItem_empty_def py_index_def
  dict_get_def say_def
lemmas answer_defs = process_answer_def py_strip_def py_lower_def py_replace_def
  isspace_def lower_cp_def ascii_def kot_def
lemmas cat_defs = cat_row_def cat_tutor_def cat_item_def typed_def

lemma get_item_cat:
  "get_item 30 (cat_tutor 2 PNan 3) 0 739000 = Inr (cat_item 2 PNan, cat_tutor 2 PNan 3)"
  by (simp add: item_defs cat_defs)

theorem get_item_below_max_witness:
  "0 < length (vocabulary (cat_tutor 2 PNan 3)) \<and>
   get_item 30 (cat_tutor 2 PNan 3) 0 739000 = Inr (cat_item 2 PNan, cat_tutor 2 PNan 3) \<and>
   word (cat_item 2 PNan) \<noteq> PNone \<and>
   py_ge (success_number (cat_item 2 PNan)) (max_success_number (cat_tutor 2 PNan 3)) = Inr False"
proof -
  have len: "0 < length (vocabulary (cat_tutor 2 PNan 3))"
    by (simp add: cat_tutor_def)
  have w: "word (cat_item 2 PNan) \<noteq> PNone"
    by (simp add: cat_item_def)
  from get_item_below_max [OF len get_item_cat] w len get_item_cat
  show ?thesis by blast
qed

lemma parse_2000: "parse_learning_date (ascii ''2000-01-01'') = Inr 730120"
  by (simp add: parse_learning_date_def int_at_def py_index_def py_int_def py_strip_def
        isspace_def is_digit_def ascii_def py_date_def c_int_def days_in_month_def
        days_before_year_def days_before_month_def)

theorem get_item_comes_back_once_witness:
  "dict_get (vocabulary (cat_tutor 3 (PStr (ascii ''2000-01-01'')) 3) ! 0) LEARNING_DATE
     = PStr (ascii ''2000-01-01'') \<and>
   parse_learning_date (ascii ''2000-01-01'') = Inr 730120 \<and>
   (30 :: int) < 739000 - 730120 \<and>
   (\<exists>it t'. get_item 30 (cat_tutor 3 (PStr (ascii ''2000-01-01'')) 3) 0 739000 = Inr (it, t') \<and>
      dict_get (vocabulary t' ! 0) SUCCESS_NUMBER = PInt 0 \<and>
      dict_get (vocabulary t' ! 0) LEARNING_DATE = PStr [] \<and>
      dict_get (vocabulary_frame t' ! 0) SUCCESS_NUMBER = PInt 0 \<and>
      dict_get (vocabulary_frame t' ! 0) LEARNING_DATE = PStr [] \<and>
      stdout t' = [NotRepeated (PStr (ascii ''cat'')) (PStr (ascii ''2000-01-01''))] \<and>
      (\<forall>today'. \<exists>it'. get_item 30 t' 0 today' = Inr (it', t')))"
proof -
  let ?t = "cat_tutor 3 (PStr (ascii ''2000-01-01'')) 3"
  have l1: "0 < length (vocabulary ?t)" and l2: "0 < length (vocabulary_frame ?t)"
    by (simp_all add: cat_tutor_def)
  have ld: "dict_get (vocabulary ?t ! 0) LEARNING_DATE = PStr (ascii ''2000-01-01'')"
    by (simp add: cat_tutor_def cat_row_def dict_get_def)
  have w: "dict_get (vocabulary ?t ! 0) WORD = PStr (ascii ''cat'')"
    by (simp add: cat_tutor_def cat_row_def dict_get_def)
  have out: "stdout ?t = []"
    by (simp add: cat_tutor_def)
  have late: "(30 :: int) < 739000 - 730120" by simp
  from get_item_comes_back_once [OF l1 l2 ld parse_2000 late] ld parse_2000 late
  show ?thesis
    by (simp add: w out)
qed

section \<open>Properties of one turn of the drill loop\<close>

lemmas turn_defs = turn_def grade_def finish_turn_def bonus_correction_def vocabulary_size_def
lemmas run_defs = run_def finalize_def print_result_def caught_def


lemma update_item_in_frame_cell:
  assumes "index item = Some i" and "i < length (vocabulary_frame t)"
  shows "dict_get (vocabulary_frame (update_item_in_frame t item) ! i) k =
     (if k = SUCCESS_NUMBER then success_number item
      else if k = LEARNING_DATE then learning_date item
      else dict_get (vocabulary_frame t ! i) k)"
  using assms by (simp add: update_item_in_frame_def dict_get_set_learning_state)

lemma update_item_in_frame_length:
  "length (vocabulary_frame t) \<le> length (vocabulary_frame (update_item_in_frame t item))"
  by (simp add: update_item_in_frame_def split: option.splits)

lemma finish_turn_flag: "is_last_wrong (snd (finish_turn cbt s i item today)) = is_last_wrong s"
  by (simp add: finish_turn_def Let_def split: sum.splits prod.splits)

lemma grade_wrong:
  assumes "answer \<notin> set ras" and "success_number item = PInt n"
  shows "grade cbt s i item ras answer today =
     finish_turn cbt
       (s\<lparr>is_last_wrong := True,
          self := update_item_in_frame (say (self s) (WrongAnswer ras (transcription item)))
                    (item\<lparr>success_number := PInt (n - (if answer = [] then 2 else 1))\<rparr>)\<rparr>)
       i (item\<lparr>success_number := PInt (n - (if answer = [] then 2 else 1))\<rparr>) today"
  using assms by (simp add: grade_def Let_def)

lemma grade_right:
  assumes "answer \<in> set ras" and "success_number item = PInt n"
  shows "grade cbt s i item ras answer today =
     (if max_success_number (self s) \<le> n + 1
      then (Next, s\<lparr>is_last_wrong := False,
                    self := say (update_item_in_frame (say (self s) (RightAnswer (transcription item)))
                                  (item\<lparr>success_number := PInt (n + 1)\<rparr>))
                             (WillBeSkipped (word item))\<rparr>)
      else finish_turn cbt
             (s\<lparr>is_last_wrong := False,
                self := update_item_in_frame (say (self s) (RightAnswer (transcription item)))
                          (item\<lparr>success_number := PInt (n + 1)\<rparr>)\<rparr>)
             i (item\<lparr>success_number := PInt (n + 1)\<rparr>) today)"
  using assms by (simp add: grade_def Let_def update_item_in_frame_fields say_fields)

lemma process_answer_Nil: "process_answer [] = []"
  by (simp add: process_answer_def py_strip_def py_lower_def py_replace_def)

text \<open>
  C6, amended. When the normalised answer is none of the accepted translations, the
  flag is_last_wrong is set and the success number of the item goes down by 1, and by 2
  when the normalised answer is empty, which it is for an empty line and for a line of
  white space alone; the new number is written to the frame at the index of the item, with
  the learning date of the item, before the turn goes on to its last step.
\<close>

theorem wrong_answer_penalty:
  assumes "process_answer raw \<notin> set right_answers"
    and "success_number item = PInt n"
    and "index item = Some i"
    and "i < length (vocabulary_frame (self s))"
  shows "\<exists>s2 item2 k.
      k = (if process_answer raw = [] then 2 else 1) \<and>
      (raw = [] \<longrightarrow> k = 2) \<and>
      item2 = item\<lparr>success_number := PInt (n - k)\<rparr> \<and>
      grade cbt s i item right_answers (process_answer raw) today
        = finish_turn cbt s2 i item2 today \<and>
      is_last_wrong s2 \<and>
      is_last_wrong (snd (grade cbt s i item right_answers (process_answer raw) today)) \<and>
      vocabulary (self s2) = vocabulary (self s) \<and>
      dict_get (vocabulary_frame (self s2) ! i) SUCCESS_NUMBER = PInt (n - k) \<and>
      dict_get (vocabulary_frame (self s2) ! i) LEARNING_DATE = learning_date item"
proof -
  let ?k = "if process_answer raw = [] then 2 else 1 :: int"
  let ?item2 = "item\<lparr>success_number := PInt (n - ?k)\<rparr>"
  let ?s2 = "s\<lparr>is_last_wrong := True,
               self := update_item_in_frame
                 (say (self s) (WrongAnswer right_answers (transcription item))) ?item2\<rparr>"
  have g: "grade cbt s i item right_answers (process_answer raw) today
        = finish_turn cbt ?s2 i ?item2 today"
    using grade_wrong [OF assms(1,2)] by simp
  have e: "raw = [] \<longrightarrow> ?k = 2"
    by (simp add: process_answer_Nil)
  have f: "is_last_wrong ?s2" by simp
  have f2: "is_last_wrong (snd (grade cbt s i item right_answers (process_answer raw) today))"
    by (simp only: g finish_turn_flag f)
  have v: "vocabulary (self ?s2) = vocabulary (self s)"
    by (simp add: update_item_in_frame_fields say_fields)
  have idx: "index ?item2 = Some i" using assms(3) by simp
  have len: "i < length (vocabulary_frame (say (self s) (WrongAnswer right_answers (transcription item))))"
    using assms(4) by (simp add: say_fields)
  have c: "dict_get (vocabulary_frame (self ?s2) ! i) SUCCESS_NUMBER = PInt (n - ?k)"
       "dict_get (vocabulary_frame (self ?s2) ! i) LEARNING_DATE = learning_date item"
    using update_item_in_frame_cell [OF idx len] by simp_all
  from g e f f2 v c show ?thesis
    by blast
qed


theorem wrong_answer_penalty_witness:
  "process_answer [] \<notin> set [kot] \<and>
   success_number (cat_item 1 PNan) = PInt 1 \<and>
   index (cat_item 1 PNan) = Some 0 \<and>
   (\<exists>s2. grade 30 \<lparr>self = cat_tutor 1 PNan 3, old_item = None, is_last_wrong = False\<rparr> 0
            (cat_item 1 PNan) [kot] (process_answer []) 739000
          = finish_turn 30 s2 0 (cat_item (- 1) PNan) 739000 \<and>
        is_last_wrong s2 \<and>
        dict_get (vocabulary_frame (self s2) ! 0) SUCCESS_NUMBER = PInt (- 1))"
proof -
  let ?s = "\<lparr>self = cat_tutor 1 PNan 3, old_item = None, is_last_wrong = False\<rparr>"
  have h1: "process_answer [] \<notin> set [kot]"
    by (simp add: process_answer_Nil kot_def)
  have h2: "success_number (cat_item 1 PNan) = PInt 1"
    and h3: "index (cat_item 1 PNan) = Some 0"
    by (simp_all add: cat_item_def)
  have h4: "0 < length (vocabulary_frame (self ?s))"
    by (simp add: cat_tutor_def)
  have it: "cat_item 1 PNan\<lparr>success_number := PInt (1 - 2)\<rparr> = cat_item (- 1) PNan"
    by (simp add: cat_item_def)
  from wrong_answer_penalty [OF h1 h2 h3 h4, of 30 739000] h1 h2 h3 it
  show ?thesis
    by (auto simp: process_answer_Nil)
qed

text \<open>
  C6 as stated fails: a line of one blank is not the empty string, it matches no
  translation, and the success number 1 of the word becomes -1 in the frame, not 0.
\<close>

theorem blank_answer_counterexample:
  "answer_first (typed [0x20]) \<noteq> [] \<and>
   process_answer (answer_first (typed [0x20])) \<notin> set (map process_answer (py_split 0x2C kot)) \<and>
   turn 30 \<lparr>self = cat_tutor 1 PNan 3, old_item = Some (cat_item 1 PNan), is_last_wrong = False\<rparr>
      (typed [0x20]) =
   (Next, \<lparr>self = \<lparr>vocabulary = [cat_row 1 PNan], vocabulary_frame = [cat_row (- 1) PNan],
               max_success_number = 3,
               stdout = [WordPrompt (PStr (ascii ''cat'')), WrongAnswer [kot] (PStr (ascii ''kat'')),
                         Successes (PInt (- 1))]\<rparr>,
           old_item = Some (cat_item 1 PNan), is_last_wrong = True\<rparr>) \<and>
   dict_get (cat_row (- 1) PNan) SUCCESS_NUMBER \<noteq> PInt (1 - 1)"
  by (simp add: turn_defs item_defs answer_defs cat_defs Let_def)

lemma get_item_tutor:
  assumes "get_item cbt t i today = Inr (it, t')"
  shows "i < length (vocabulary t) \<and> (t' = t \<or> t' = reset_tutor t i)"
proof (cases "i < length (vocabulary t)")
  case False
  with assms show ?thesis by (simp add: get_item_out_of_range)
next
  case True
  show ?thesis
  proof (cases "vocabulary t ! i = []")
    case True
    with assms \<open>i < length (vocabulary t)\<close> show ?thesis
      by (simp add: get_item_empty_dict)
  next
    case False
    from assms show ?thesis
      unfolding get_item_unfold [OF True False]
      using True by (auto split: sum.splits if_splits)
  qed
qed

lemma get_item_keeps:
  assumes "get_item cbt t i today = Inr (it, t')"
  shows "max_success_number t' = max_success_number t"
    and "length (vocabulary t') = length (vocabulary t)"
    and "length (vocabulary_frame t) \<le> length (vocabulary_frame t')"
proof -
  from get_item_tutor [OF assms] have c: "t' = t \<or> t' = reset_tutor t i" by simp
  then show "max_success_number t' = max_success_number t"
    by (auto simp: reset_tutor_fields)
  from c show "length (vocabulary t') = length (vocabulary t)"
    by (auto simp: reset_tutor_fields)
  have "length (vocabulary_frame t) \<le> length (vocabulary_frame (reset_tutor t i))"
    unfolding reset_tutor_def
    using update_item_in_frame_length [of "say t (NotRepeated (dict_get (vocabulary t ! i) WORD)
                 (dict_get (vocabulary t ! i) LEARNING_DATE))
          \<lparr>vocabulary := (vocabulary t)
             [i := set_learning_state (reset_item (item_at (vocabulary t) i)) (vocabulary t ! i)]\<rparr>"]
    by (simp add: say_def)
  with c show "length (vocabulary_frame t) \<le> length (vocabulary_frame t')"
    by auto
qed

lemma bonus_correction_numeric:
  assumes "old_item s = Some old" and "success_number old = PInt n"
  shows "bonus_correction s =
     (None,
      if max_success_number (self s) \<le> n + 2
      then s\<lparr>old_item := None,
             self := say (update_item_in_frame
                            (say (self s) (OldWordSuccesses (word old) (PInt (n + 2))))
                            (old\<lparr>success_number := PInt (n + 2)\<rparr>))
                      (WillBeSkipped (word old))\<rparr>
      else s\<lparr>old_item := Some (old\<lparr>success_number := PInt (n + 2)\<rparr>),
             self := update_item_in_frame
                       (say (self s) (OldWordSuccesses (word old) (PInt (n + 2))))
                       (old\<lparr>success_number := PInt (n + 2)\<rparr>)\<rparr>)"
  using assms
  by (simp add: bonus_correction_def Let_def update_item_in_frame_fields say_fields)

lemma turn_unfold:
  assumes "vocabulary (self s) \<noteq> []"
    and "get_item cbt (self s) (rnd env mod length (vocabulary (self s))) (today_first env)
           = Inr (item, t1)"
    and "truthy (word item)" and "translation item = PStr tr"
  shows "turn cbt s env =
     (if process_answer (answer_first env) = ascii ''-1''
      then (Stop, s\<lparr>self := say t1 (WordPrompt (word item))\<rparr>)
      else if process_answer (answer_first env) = ascii ''+'' \<and> is_last_wrong s then
        (case bonus_correction (s\<lparr>self := say t1 (WordPrompt (word item))\<rparr>) of
           (Some e, s3) \<Rightarrow> (Raised e, s3)
         | (None, s3) \<Rightarrow>
             if process_answer (answer_second env) = ascii ''-1''
             then (Stop, s3\<lparr>self := say (self s3) (WordPrompt (word item))\<rparr>)
             else grade cbt (s3\<lparr>self := say (self s3) (WordPrompt (word item))\<rparr>)
                    (rnd env mod length (vocabulary (self s))) item
                    (map process_answer (py_split 0x2C tr))
                    (process_answer (answer_second env)) (today_last env))
      else grade cbt (s\<lparr>self := say t1 (WordPrompt (word item))\<rparr>)
             (rnd env mod length (vocabulary (self s))) item
             (map process_answer (py_split 0x2C tr))
             (process_answer (answer_first env)) (today_last env))"
  using assms
  by (simp add: turn_def vocabulary_size_def Let_def split: option.splits prod.splits)


text \<open>
  C5. When the previous answer was wrong, the previous item holds the number n and the
  normalised line is the plus sign, the turn writes n + 2 to the frame at the index of the
  previous item and prints it; when n + 2 reaches max_success_number it prints that the
  word will be skipped and sets old_item to None. Then it prompts for the current word
  again, ends the loop if the new line normalises to -1, and grades the new line otherwise.
\<close>

theorem plus_corrects_previous_answer:
  assumes "vocabulary (self s) \<noteq> []"
    and "get_item cbt (self s) (rnd env mod length (vocabulary (self s))) (today_first env)
           = Inr (item, t1)"
    and "truthy (word item)" and "translation item = PStr tr"
    and "is_last_wrong s"
    and "process_answer (answer_first env) = ascii ''+''"
    and "old_item s = Some old" and "success_number old = PInt n"
    and "index old = Some j" and "j < length (vocabulary_frame t1)"
  shows "\<exists>s4.
      turn cbt s env =
        (if process_answer (answer_second env) = ascii ''-1'' then (Stop, s4)
         else grade cbt s4 (rnd env mod length (vocabulary (self s))) item
                (map process_answer (py_split 0x2C tr))
                (process_answer (answer_second env)) (today_last env)) \<and>
      dict_get (vocabulary_frame (self s4) ! j) SUCCESS_NUMBER = PInt (n + 2) \<and>
      dict_get (vocabulary_frame (self s4) ! j) LEARNING_DATE = learning_date old \<and>
      old_item s4 =
        (if max_success_number (self s) \<le> n + 2 then None
         else Some (old\<lparr>success_number := PInt (n + 2)\<rparr>)) \<and>
      stdout (self s4) =
        stdout t1 @ [WordPrompt (word item), OldWordSuccesses (word old) (PInt (n + 2))] @
        (if max_success_number (self s) \<le> n + 2 then [WillBeSkipped (word old)] else []) @
        [WordPrompt (word item)] \<and>
      vocabulary (self s4) = vocabulary t1 \<and>
      is_last_wrong s4"
proof -
  let ?s2 = "s\<lparr>self := say t1 (WordPrompt (word item))\<rparr>"
  let ?old = "old\<lparr>success_number := PInt (n + 2)\<rparr>"
  let ?t3 = "update_item_in_frame (say (self ?s2) (OldWordSuccesses (word old) (PInt (n + 2)))) ?old"
  let ?s3 = "if max_success_number (self ?s2) \<le> n + 2
      then ?s2\<lparr>old_item := None, self := say ?t3 (WillBeSkipped (word old))\<rparr>
      else ?s2\<lparr>old_item := Some ?old, self := ?t3\<rparr>"
  let ?s4 = "?s3\<lparr>self := say (self ?s3) (WordPrompt (word item))\<rparr>"
  have mx: "max_success_number t1 = max_success_number (self s)"
    using get_item_keeps(1) [OF assms(2)] .
  have "ascii ''+'' \<noteq> ascii ''-1''"
    by (simp add: ascii_def)
  with assms(6) have nq: "process_answer (answer_first env) \<noteq> ascii ''-1''"
    by simp
  have old2: "old_item ?s2 = Some old" using assms(7) by simp
  have bc: "bonus_correction ?s2 = (None, ?s3)"
    using bonus_correction_numeric [OF old2 assms(8)] by simp
  have t: "turn cbt s env =
        (if process_answer (answer_second env) = ascii ''-1'' then (Stop, ?s4)
         else grade cbt ?s4 (rnd env mod length (vocabulary (self s))) item
                (map process_answer (py_split 0x2C tr))
                (process_answer (answer_second env)) (today_last env))"
    unfolding turn_unfold [OF assms(1-4)]
    using nq assms(5,6) by (simp only: bc) simp
  have idx: "index ?old = Some j" using assms(9) by simp
  have len: "j < length (vocabulary_frame (say (self ?s2) (OldWordSuccesses (word old) (PInt (n + 2)))))"
    using assms(10) by (simp add: say_fields)
  have cell: "dict_get (vocabulary_frame ?t3 ! j) SUCCESS_NUMBER = PInt (n + 2)"
    "dict_get (vocabulary_frame ?t3 ! j) LEARNING_DATE = learning_date old"
    using update_item_in_frame_cell [OF idx len] by simp_all
  have frame4: "vocabulary_frame (self ?s4) = vocabulary_frame ?t3"
    by (simp add: say_fields)
  have c1: "dict_get (vocabulary_frame (self ?s4) ! j) SUCCESS_NUMBER = PInt (n + 2)"
    and c2: "dict_get (vocabulary_frame (self ?s4) ! j) LEARNING_DATE = learning_date old"
    by (simp_all only: frame4 cell)
  have o: "old_item ?s4 =
        (if max_success_number (self s) \<le> n + 2 then None else Some ?old)"
    by (simp add: mx say_fields)
  have out: "stdout (self ?s4) =
        stdout t1 @ [WordPrompt (word item), OldWordSuccesses (word old) (PInt (n + 2))] @
        (if max_success_number (self s) \<le> n + 2 then [WillBeSkipped (word old)] else []) @
        [WordPrompt (word item)]"
    by (simp add: mx say_fields update_item_in_frame_fields)
  have voc: "vocabulary (self ?s4) = vocabulary t1"
    by (simp add: say_fields update_item_in_frame_fields)
  have flag: "is_last_wrong ?s4" using assms(5) by simp
  from t c1 c2 o out voc flag show ?thesis
    by blast
qed


theorem plus_corrects_previous_answer_witness:
  "is_last_wrong \<lparr>self = cat_tutor 1 PNan 3, old_item = Some (cat_item 1 PNan), is_last_wrong = True\<rparr> \<and>
   process_answer (answer_first (typed (ascii ''+'')\<lparr>answer_second := ascii ''-1''\<rparr>)) = ascii ''+'' \<and>
   (\<exists>s4. turn 30 \<lparr>self = cat_tutor 1 PNan 3, old_item = Some (cat_item 1 PNan), is_last_wrong = True\<rparr>
            (typed (ascii ''+'')\<lparr>answer_second := ascii ''-1''\<rparr>) = (Stop, s4) \<and>
         dict_get (vocabulary_frame (self s4) ! 0) SUCCESS_NUMBER = PInt 3 \<and>
         old_item s4 = None \<and>
         stdout (self s4) =
           [WordPrompt (PStr (ascii ''cat'')), OldWordSuccesses (PStr (ascii ''cat'')) (PInt 3),
            WillBeSkipped (PStr (ascii ''cat'')), WordPrompt (PStr (ascii ''cat''))])"
proof -
  let ?s = "\<lparr>self = cat_tutor 1 PNan 3, old_item = Some (cat_item 1 PNan), is_last_wrong = True\<rparr>"
  let ?env = "typed (ascii ''+'')\<lparr>answer_second := ascii ''-1''\<rparr>"
  have h1: "vocabulary (self ?s) \<noteq> []"
    by (simp add: cat_tutor_def)
  have h2: "get_item 30 (self ?s) (rnd ?env mod length (vocabulary (self ?s))) (today_first ?env)
      = Inr (cat_item 1 PNan, cat_tutor 1 PNan 3)"
    by (simp add: item_defs cat_defs)
  have h3: "truthy (word (cat_item 1 PNan))"
    and h4: "translation (cat_item 1 PNan) = PStr kot"
    and h8: "success_number (cat_item 1 PNan) = PInt 1"
    and h9: "index (cat_item 1 PNan) = Some 0"
    by (simp_all add: cat_item_def ascii_def)
  have h5: "is_last_wrong ?s" by simp
  have h6: "process_answer (answer_first ?env) = ascii ''+''"
    by (simp add: typed_def answer_defs)
  have h7: "old_item ?s = Some (cat_item 1 PNan)" by simp
  have h10: "0 < length (vocabulary_frame (cat_tutor 1 PNan 3))"
    by (simp add: cat_tutor_def)
  have q: "process_answer (answer_second ?env) = ascii ''-1''"
    by (simp add: typed_def answer_defs)
  have w: "word (cat_item 1 PNan) = PStr (ascii ''cat'')"
    by (simp add: cat_item_def)
  have m: "max_success_number (self ?s) = 3" "stdout (cat_tutor 1 PNan 3) = []"
    by (simp_all add: cat_tutor_def)
  from plus_corrects_previous_answer [OF h1 h2 h3 h4 h5 h6 h7 h8 h9 h10]
  obtain s4 where "turn 30 ?s ?env =
        (if process_answer (answer_second ?env) = ascii ''-1'' then (Stop, s4)
         else grade 30 s4 (rnd ?env mod length (vocabulary (self ?s))) (cat_item 1 PNan)
                (map process_answer (py_split 0x2C kot))
                (process_answer (answer_second ?env)) (today_last ?env))"
      "dict_get (vocabulary_frame (self s4) ! 0) SUCCESS_NUMBER = PInt (1 + 2)"
      "old_item s4 =
        (if max_success_number (self ?s) \<le> 1 + 2 then None
         else Some (cat_item 1 PNan\<lparr>success_number := PInt (1 + 2)\<rparr>))"
      "stdout (self s4) =
        stdout (cat_tutor 1 PNan 3) @ [WordPrompt (word (cat_item 1 PNan)),
           OldWordSuccesses (word (cat_item 1 PNan)) (PInt (1 + 2))] @
        (if max_success_number (self ?s) \<le> 1 + 2 then [WillBeSkipped (word (cat_item 1 PNan))] else []) @
        [WordPrompt (word (cat_item 1 PNan))]"
    by blast
  then have "turn 30 ?s ?env = (Stop, s4) \<and>
         dict_get (vocabulary_frame (self s4) ! 0) SUCCESS_NUMBER = PInt 3 \<and>
         old_item s4 = None \<and>
         stdout (self s4) =
           [WordPrompt (PStr (ascii ''cat'')), OldWordSuccesses (PStr (ascii ''cat'')) (PInt 3),
            WillBeSkipped (PStr (ascii ''cat'')), WordPrompt (PStr (ascii ''cat''))]"
    by (simp only: q w m) simp
  with h5 h6 show ?thesis
    by blast
qed

section \<open>The drill loop writes to the frame only\<close>

text \<open>
  C1 at the threshold 3 and a word with 2 successes. The right answer takes the
  success number to 3 and the notice that the word will be skipped is printed, but only
  the frame receives the 3: the vocabulary, which get_item reads, still holds 2, and
  the next call of get_item on the index returns the word, not the empty item.
\<close>

theorem graduated_word_is_returned_again:
  "turn 30 \<lparr>self = cat_tutor 2 PNan 3, old_item = Some (cat_item 2 PNan), is_last_wrong = False\<rparr>
      (typed kot) =
   (Next, \<lparr>self = \<lparr>vocabulary = [cat_row 2 PNan], vocabulary_frame = [cat_row 3 PNan],
               max_success_number = 3,
               stdout = [WordPrompt (PStr (ascii ''cat'')), RightAnswer (PStr (ascii ''kat'')),
                         WillBeSkipped (PStr (ascii ''cat''))]\<rparr>,
           old_item = Some (cat_item 2 PNan), is_last_wrong = False\<rparr>) \<and>
   get_item 30 \<lparr>vocabulary = [cat_row 2 PNan], vocabulary_frame = [cat_row 3 PNan],
               max_success_number = 3,
               stdout = [WordPrompt (PStr (ascii ''cat'')), RightAnswer (PStr (ascii ''kat'')),
                         WillBeSkipped (PStr (ascii ''cat''))]\<rparr> 0 739000 =
   Inr (cat_item 2 PNan,
        \<lparr>vocabulary = [cat_row 2 PNan], vocabulary_frame = [cat_row 3 PNan],
               max_success_number = 3,
               stdout = [WordPrompt (PStr (ascii ''cat'')), RightAnswer (PStr (ascii ''kat'')),
                         WillBeSkipped (PStr (ascii ''cat''))]\<rparr>) \<and>
   word (cat_item 2 PNan) \<noteq> word WTItem_empty"
  by (simp add: turn_defs item_defs answer_defs cat_defs Let_def)

text \<open>
  C2 on a run of two turns over a word with 0 successes: a wrong answer, then the
  line -1. At the end the frame, which is written to the file, holds -1 and the
  vocabulary still holds 0: the update of the drill loop went to the frame alone.
\<close>

theorem drill_loop_leaves_vocabulary_behind:
  "run 30 (cat_tutor 0 PNan 3) 739000 [typed (ascii ''dog''), typed (ascii ''-1'')] [] =
   Finalized (Written [cat_row (- 1) PNan]
     \<lparr>vocabulary = [cat_row 0 PNan], vocabulary_frame = [cat_row (- 1) PNan],
      max_success_number = 3,
      stdout = [Start, WordPrompt (PStr (ascii ''cat'')),
                WrongAnswer [kot] (PStr (ascii ''kat'')), Successes (PInt (- 1)),
                WordPrompt (PStr (ascii ''cat'')), LearnedWords 0 1]\<rparr>) \<and>
   dict_get (cat_row 0 PNan) SUCCESS_NUMBER \<noteq> dict_get (cat_row (- 1) PNan) SUCCESS_NUMBER"
  by (simp add: run_defs turn_defs item_defs answer_defs cat_defs Let_def)

section \<open>Saving the vocabulary\<close>

lemma save_vocabulary_retries:
  "save_vocabulary t (replicate n True @ [False, False]) =
     Written (vocabulary_frame t) (t\<lparr>stdout := stdout t @ replicate n CloseTheFile\<rparr>)"
proof (induction n arbitrary: t)
  case 0
  show ?case by simp
next
  case (Suc n)
  show ?case
    by (simp add: Suc.IH say_def replicate_append_same)
qed

text \<open>
  C9. While the file is locked the method asks the operator and tries again, and it
  returns when the file is free at two calls of to_csv in a row. When the file is free at
  a call in the try and locked at the call that follows in the else branch,
  PermissionError leaves save_vocabulary, although the file is free from then on.
\<close>

theorem save_vocabulary_second_write_denied:
  "save_vocabulary (cat_tutor 3 PNan 3) [False, True] =
     Denied [cat_row 3 PNan] (cat_tutor 3 PNan 3) \<and>
   save_vocabulary (cat_tutor 3 PNan 3) [True, True, False, True] =
     Denied [cat_row 3 PNan]
       ((cat_tutor 3 PNan 3)\<lparr>stdout := [CloseTheFile, CloseTheFile]\<rparr>) \<and>
   save_vocabulary (cat_tutor 3 PNan 3) [True, True, False, False] =
     Written [cat_row 3 PNan]
       ((cat_tutor 3 PNan 3)\<lparr>stdout := [CloseTheFile, CloseTheFile]\<rparr>)"
  by (simp add: cat_defs say_def)

section \<open>The previous item of the loop\<close>

lemma due_for_review_any_day:
  assumes "due_for_review cbt ld d1 = Inr b"
  shows "\<exists>b'. due_for_review cbt ld d2 = Inr b'"
  using assms by (auto simp: due_for_review_def split: pyval.splits if_splits sum.splits)

lemma get_item_returns_real:
  assumes "i < length (vocabulary t)"
    and "truthy (dict_get (vocabulary t ! i) WORD)"
    and "dict_get (vocabulary t ! i) SUCCESS_NUMBER = PInt n" and "n < max_success_number t"
    and "0 < max_success_number t"
    and "due_for_review cbt (dict_get (vocabulary t ! i) LEARNING_DATE) d0 = Inr b0"
  shows "\<exists>it t'. get_item cbt t i today = Inr (it, t') \<and>
           real_item (length (vocabulary t)) it \<and> (t' = t \<or> t' = reset_tutor t i)"
proof -
  have ne: "vocabulary t ! i \<noteq> []"
    using assms(2) by (auto simp: dict_get_def)
  obtain b where b: "due_for_review cbt (dict_get (vocabulary t ! i) LEARNING_DATE) today = Inr b"
    using due_for_review_any_day [OF assms(6)] by blast
  have r1: "real_item (length (vocabulary t)) (item_at (vocabulary t) i)"
    using assms(1-3) by (simp add: real_item_def item_at_def is_number_def)
  have r2: "real_item (length (vocabulary t)) (reset_item (item_at (vocabulary t) i))"
    using assms(1-2) by (simp add: real_item_def item_at_def reset_item_def is_number_def)
  show ?thesis
    unfolding get_item_unfold [OF assms(1) ne]
    using b r1 r2 assms(3-5) by (cases b) simp_all
qed

lemma get_item_leaves_real:
  assumes "get_item cbt t i today = Inr (item, t1)" and "truthy (word item)"
    and "0 < max_success_number t"
  shows "i < length (vocabulary t1) \<and>
         truthy (dict_get (vocabulary t1 ! i) WORD) \<and>
         (\<exists>n. dict_get (vocabulary t1 ! i) SUCCESS_NUMBER = PInt n \<and> n < max_success_number t1) \<and>
         (\<exists>b. due_for_review cbt (dict_get (vocabulary t1 ! i) LEARNING_DATE) today = Inr b) \<and>
         (\<exists>n. success_number item = PInt n) \<and> index item = Some i"
proof -
  from get_item_tutor [OF assms(1)] have len: "i < length (vocabulary t)" by simp
  have ne: "vocabulary t ! i \<noteq> []"
  proof
    assume "vocabulary t ! i = []"
    with assms(1) len have "item = WTItem_empty" by (simp add: get_item_empty_dict)
    with assms(2) show False by (simp add: word_WTItem_empty)
  qed
  note unf = get_item_unfold [OF len ne, of cbt today]
  show ?thesis
  proof (cases "due_for_review cbt (dict_get (vocabulary t ! i) LEARNING_DATE) today")
    case (Inl e)
    with unf assms(1) show ?thesis by simp
  next
    case (Inr due)
    show ?thesis
    proof (cases due)
      case True
      with Inr unf assms(1,3)
      have it: "item = reset_item (item_at (vocabulary t) i)" and t1: "t1 = reset_tutor t i"
        by simp_all
      from assms(2) it have w: "truthy (dict_get (vocabulary t ! i) WORD)"
        by (simp add: reset_item_def item_at_def)
      have row: "vocabulary (reset_tutor t i) ! i =
          set_learning_state (reset_item (item_at (vocabulary t) i)) (vocabulary t ! i)"
        and len': "length (vocabulary (reset_tutor t i)) = length (vocabulary t)"
        using len by (simp_all add: reset_tutor_fields)
      show ?thesis
        using len w assms(3)
        by (auto simp: t1 it row len' dict_get_set_learning_state due_for_review_cleared
              reset_tutor_fields(1) reset_item_def item_at_def)
    next
      case False
      with Inr unf assms(1,2)
      have lt: "py_lt (dict_get (vocabulary t ! i) SUCCESS_NUMBER) (max_success_number t) = Inr True"
        and it: "item = item_at (vocabulary t) i" and t1: "t1 = t"
        by (auto simp: word_WTItem_empty split: sum.splits if_splits)
      from lt obtain n where n: "dict_get (vocabulary t ! i) SUCCESS_NUMBER = PInt n"
          "n < max_success_number t"
        by (auto simp: py_lt_True)
      from assms(2) it have w: "truthy (dict_get (vocabulary t ! i) WORD)"
        by (simp add: item_at_def)
      show ?thesis
        using len w n Inr by (simp add: t1 it item_at_def)
    qed
  qed
qed


lemma drillable_cong:
  assumes "drillable cbt t i" and "vocabulary t' = vocabulary t"
    and "max_success_number t' = max_success_number t"
  shows "drillable cbt t' i"
  using assms by (simp add: drillable_def)

lemma get_item_drillable:
  assumes "get_item cbt t i today = Inr (item, t1)" and "truthy (word item)"
    and "0 < max_success_number t"
  shows "drillable cbt t1 i"
proof -
  note f = get_item_leaves_real [OF assms]
  from f obtain b where "due_for_review cbt (dict_get (vocabulary t1 ! i) LEARNING_DATE) today = Inr b"
    by blast
  from due_for_review_any_day [OF this, of 0]
  obtain b' where "due_for_review cbt (dict_get (vocabulary t1 ! i) LEARNING_DATE) 0 = Inr b'"
    by blast
  moreover have "max_success_number t1 = max_success_number t"
    using get_item_keeps(1) [OF assms(1)] .
  ultimately show ?thesis
    using f assms(3) by (auto simp: drillable_def py_lt_True)
qed

lemma drillable_get_item:
  assumes "drillable cbt t i"
  shows "\<exists>it t'. get_item cbt t i today = Inr (it, t') \<and>
           real_item (length (vocabulary t)) it \<and> (t' = t \<or> t' = reset_tutor t i)"
proof -
  from assms obtain n b where
    "i < length (vocabulary t)" "truthy (dict_get (vocabulary t ! i) WORD)"
    "dict_get (vocabulary t ! i) SUCCESS_NUMBER = PInt n" "n < max_success_number t"
    "0 < max_success_number t"
    "due_for_review cbt (dict_get (vocabulary t ! i) LEARNING_DATE) 0 = Inr b"
    by (auto simp: drillable_def py_lt_True split: sum.splits)
  then show ?thesis
    by (rule get_item_returns_real)
qed

lemma finish_turn_ready:
  assumes "drillable cbt (self s) i"
  shows "\<exists>it s'. finish_turn cbt s i item today = (Next, s') \<and>
           old_item s' = Some it \<and> real_item (length (vocabulary (self s'))) it \<and>
           is_last_wrong s' = is_last_wrong s \<and>
           max_success_number (self s') = max_success_number (self s) \<and>
           length (vocabulary (self s')) = length (vocabulary (self s))"
proof -
  let ?t = "say (self s) (Successes (success_number item))"
  have "drillable cbt ?t i"
    using assms by (rule drillable_cong) (simp_all add: say_fields)
  from drillable_get_item [OF this, of today]
  obtain it t' where g: "get_item cbt ?t i today = Inr (it, t')"
    and r: "real_item (length (vocabulary ?t)) it" and c: "t' = ?t \<or> t' = reset_tutor ?t i"
    by blast
  from c have k: "max_success_number t' = max_success_number (self s)"
      "length (vocabulary t') = length (vocabulary (self s))"
    by (auto simp: reset_tutor_fields say_fields)
  from g have "finish_turn cbt s i item today = (Next, s\<lparr>self := t', old_item := Some it\<rparr>)"
    by (simp add: finish_turn_def Let_def)
  with r k show ?thesis
    by (simp add: say_fields)
qed

lemma grade_keeps_ready:
  assumes "drillable cbt (self s) i" and "success_number item = PInt n"
    and "grade cbt s i item ras answer today = (Next, s')"
  shows "retry_ready s' \<and> max_success_number (self s') = max_success_number (self s) \<and>
         length (vocabulary (self s')) = length (vocabulary (self s))"
proof (cases "answer \<in> set ras")
  case True
  let ?s2 = "s\<lparr>is_last_wrong := False,
               self := update_item_in_frame (say (self s) (RightAnswer (transcription item)))
                         (item\<lparr>success_number := PInt (n + 1)\<rparr>)\<rparr>"
  show ?thesis
  proof (cases "max_success_number (self s) \<le> n + 1")
    case True
    with \<open>answer \<in> set ras\<close> assms(3) show ?thesis
      unfolding grade_right [OF \<open>answer \<in> set ras\<close> assms(2)]
      by (auto simp: retry_ready_def say_fields update_item_in_frame_fields)
  next
    case False
    have d: "drillable cbt (self ?s2) i"
      using assms(1) by (rule drillable_cong) (simp_all add: say_fields update_item_in_frame_fields)
    from finish_turn_ready [OF d, of "item\<lparr>success_number := PInt (n + 1)\<rparr>" today]
         False assms(3)
    show ?thesis
      unfolding grade_right [OF \<open>answer \<in> set ras\<close> assms(2)]
      by (auto simp: retry_ready_def say_fields update_item_in_frame_fields)
  qed
next
  case False
  let ?item2 = "item\<lparr>success_number := PInt (n - (if answer = [] then 2 else 1))\<rparr>"
  let ?s2 = "s\<lparr>is_last_wrong := True,
               self := update_item_in_frame (say (self s) (WrongAnswer ras (transcription item)))
                         ?item2\<rparr>"
  have d: "drillable cbt (self ?s2) i"
    using assms(1) by (rule drillable_cong) (simp_all add: say_fields update_item_in_frame_fields)
  from finish_turn_ready [OF d, of ?item2 today] assms(3)
  show ?thesis
    unfolding grade_wrong [OF False assms(2)]
    by (auto simp: retry_ready_def vocabulary_size_def say_fields update_item_in_frame_fields)
qed


lemma retry_ready_old_item:
  assumes "retry_ready s" and "is_last_wrong s"
  shows "\<exists>old i n. old_item s = Some old \<and> index old = Some i \<and>
           i < length (vocabulary (self s)) \<and> truthy (word old) \<and> success_number old = PInt n"
  using assms
  by (auto simp: retry_ready_def real_item_def is_number_def vocabulary_size_def
        split: option.splits pyval.splits)

lemma retry_ready_cong:
  assumes "retry_ready s" and "old_item s' = old_item s"
    and "is_last_wrong s' = is_last_wrong s"
    and "length (vocabulary (self s')) = length (vocabulary (self s))"
  shows "retry_ready s'"
  using assms
  by (auto simp: retry_ready_def vocabulary_size_def split: option.splits if_splits)

lemma turn_keeps_ready:
  assumes "retry_ready s" and "0 < max_success_number (self s)"
    and "turn cbt s env = (Next, s')"
  shows "retry_ready s' \<and> max_success_number (self s') = max_success_number (self s) \<and>
         length (vocabulary (self s')) = length (vocabulary (self s))"
proof -
  let ?i = "rnd env mod length (vocabulary (self s))"
  have ne: "vocabulary (self s) \<noteq> []"
    using assms(3) by (auto simp: turn_def vocabulary_size_def)
  obtain item t1 where g: "get_item cbt (self s) ?i (today_first env) = Inr (item, t1)"
    using assms(3) ne
    by (cases "get_item cbt (self s) ?i (today_first env)")
       (auto simp: turn_def vocabulary_size_def Let_def)
  note k = get_item_keeps [OF g]
  show ?thesis
  proof (cases "truthy (word item)")
    case False
    with assms(3) ne g have "s' = s\<lparr>self := t1\<rparr>"
      by (simp add: turn_def vocabulary_size_def Let_def)
    with k retry_ready_cong [OF assms(1), of "s\<lparr>self := t1\<rparr>"] show ?thesis
      by simp
  next
    case True
    obtain tr where tr: "translation item = PStr tr"
      using assms(3) ne g True
      by (cases "translation item") (auto simp: turn_def vocabulary_size_def Let_def)
    have d: "drillable cbt t1 ?i"
      using get_item_drillable [OF g True assms(2)] .
    obtain n where n: "success_number item = PInt n"
      using get_item_leaves_real [OF g True assms(2)] by blast
    let ?s2 = "s\<lparr>self := say t1 (WordPrompt (word item))\<rparr>"
    have d2: "drillable cbt (self ?s2) ?i"
      using d by (rule drillable_cong) (simp_all add: say_fields)
    note unf = turn_unfold [OF ne g True tr]
    show ?thesis
    proof (cases "process_answer (answer_first env) = ascii ''+'' \<and> is_last_wrong s")
      case False
      with assms(3) unf
      have "grade cbt ?s2 ?i item (map process_answer (py_split 0x2C tr))
             (process_answer (answer_first env)) (today_last env) = (Next, s')"
        by (auto split: if_splits)
      from grade_keeps_ready [OF d2 n this] k show ?thesis
        by (simp add: say_fields)
    next
      case True
      then have flag: "is_last_wrong s" by simp
      from retry_ready_old_item [OF assms(1) flag]
      obtain old m where old: "old_item ?s2 = Some old" and m: "success_number old = PInt m"
        by auto
      obtain s3 where bc: "bonus_correction ?s2 = (None, s3)"
        and v3: "vocabulary (self s3) = vocabulary t1"
        and m3: "max_success_number (self s3) = max_success_number t1"
        using bonus_correction_numeric [OF old m]
        by (auto simp: say_fields update_item_in_frame_fields)
      let ?s4 = "s3\<lparr>self := say (self s3) (WordPrompt (word item))\<rparr>"
      have d4: "drillable cbt (self ?s4) ?i"
        using d by (rule drillable_cong) (simp_all add: say_fields v3 m3)
      have "ascii ''+'' \<noteq> ascii ''-1''" by (simp add: ascii_def)
      with True have nq: "process_answer (answer_first env) \<noteq> ascii ''-1''" by simp
      from assms(3) unf True nq bc
      have "grade cbt ?s4 ?i item (map process_answer (py_split 0x2C tr))
             (process_answer (answer_second env)) (today_last env) = (Next, s')"
        by (auto split: if_splits)
      from grade_keeps_ready [OF d4 n this] k show ?thesis
        by (simp add: say_fields v3 m3)
    qed
  qed
qed

lemma loop_keeps_ready:
  assumes "loop cbt s envs = Pending s'"
    and "retry_ready s" and "0 < max_success_number (self s)"
  shows "retry_ready s' \<and> max_success_number (self s') = max_success_number (self s) \<and>
         length (vocabulary (self s')) = length (vocabulary (self s))"
  using assms
proof (induction envs arbitrary: s)
  case Nil
  then show ?case by simp
next
  case (Cons env envs)
  obtain sig s1 where t: "turn cbt s env = (sig, s1)"
    by (cases "turn cbt s env")
  with Cons.prems(1) have sig: "sig = Next" and l: "loop cbt s1 envs = Pending s'"
    by (cases sig; simp split: if_splits)+
  from turn_keeps_ready [OF Cons.prems(2,3)] t sig
  have r: "retry_ready s1" "max_success_number (self s1) = max_success_number (self s)"
    "length (vocabulary (self s1)) = length (vocabulary (self s))"
    by simp_all
  from Cons.IH [OF l r(1)] r Cons.prems(3) show ?case
    by simp
qed

text \<open>
  C10. In a run started with a positive max_success_number, at the start of every
  turn after which the previous answer counts as wrong, old_item is an item that get_item
  read from a record of the vocabulary: it is not None and not the empty item, its word
  is there, its index is in range and its success number is a number. The correction of
  the previous answer therefore raises no exception in such a state, whatever the tutor
  has printed or written in the meantime.
\<close>

theorem old_item_is_real_when_last_wrong:
  assumes "0 < max_success_number t"
    and "get_item cbt t 0 today = Inr (old, t0)"
    and "loop cbt \<lparr>self = say t0 Start, old_item = Some old, is_last_wrong = False\<rparr> envs
           = Pending s"
    and "is_last_wrong s"
  shows "\<exists>it i n. old_item s = Some it \<and> it \<noteq> WTItem_empty \<and> truthy (word it) \<and>
           index it = Some i \<and> i < length (vocabulary (self s)) \<and>
           success_number it = PInt n \<and>
           (\<forall>t'. fst (bonus_correction (s\<lparr>self := t'\<rparr>)) = None)"
proof -
  let ?s0 = "\<lparr>self = say t0 Start, old_item = Some old, is_last_wrong = False\<rparr>"
  have r0: "retry_ready ?s0"
    by (simp add: retry_ready_def)
  have m0: "0 < max_success_number (self ?s0)"
    using assms(1) get_item_keeps(1) [OF assms(2)] by (simp add: say_fields)
  from loop_keeps_ready [OF assms(3) r0 m0] have "retry_ready s"
    by simp
  from retry_ready_old_item [OF this assms(4)]
  obtain it i n where it: "old_item s = Some it" "index it = Some i"
    "i < length (vocabulary (self s))" "truthy (word it)" "success_number it = PInt n"
    by blast
  from it(4) have ne: "it \<noteq> WTItem_empty"
    by (auto simp: word_WTItem_empty)
  have "fst (bonus_correction (s\<lparr>self := t'\<rparr>)) = None" for t'
    using bonus_correction_numeric [of "s\<lparr>self := t'\<rparr>" it n] it(1,5)
    by simp
  with it ne show ?thesis
    by blast
qed

lemma loop_cat_dog:
  "loop 30 \<lparr>self = say (cat_tutor 1 PNan 3) Start, old_item = Some (cat_item 1 PNan),
             is_last_wrong = False\<rparr> [typed (ascii ''dog'')] =
   Pending \<lparr>self = \<lparr>vocabulary = [cat_row 1 PNan], vocabulary_frame = [cat_row 0 PNan],
                    max_success_number = 3,
                    stdout = [Start, WordPrompt (PStr (ascii ''cat'')),
                              WrongAnswer [kot] (PStr (ascii ''kat'')), Successes (PInt 0)]\<rparr>,
            old_item = Some (cat_item 1 PNan), is_last_wrong = True\<rparr>"
  by (simp add: turn_defs item_defs answer_defs cat_defs Let_def)

theorem old_item_is_real_when_last_wrong_witness:
  "(0::int) < max_success_number (cat_tutor 1 PNan 3) \<and>
   get_item 30 (cat_tutor 1 PNan 3) 0 739000 = Inr (cat_item 1 PNan, cat_tutor 1 PNan 3) \<and>
   (\<exists>s. loop 30 \<lparr>self = say (cat_tutor 1 PNan 3) Start, old_item = Some (cat_item 1 PNan),
                   is_last_wrong = False\<rparr> [typed (ascii ''dog'')] = Pending s \<and>
        is_last_wrong s \<and>
        old_item s = Some (cat_item 1 PNan) \<and>
        (\<exists>it n. old_item s = Some it \<and> it \<noteq> WTItem_empty \<and> truthy (word it) \<and>
           index it = Some 0 \<and> success_number it = PInt n \<and>
           (\<forall>t'. fst (bonus_correction (s\<lparr>self := t'\<rparr>)) = None)))"
proof -
  let ?s = "\<lparr>self = \<lparr>vocabulary = [cat_row 1 PNan], vocabulary_frame = [cat_row 0 PNan],
                    max_success_number = 3,
                    stdout = [Start, WordPrompt (PStr (ascii ''cat'')),
                              WrongAnswer [kot] (PStr (ascii ''kat'')), Successes (PInt 0)]\<rparr>,
            old_item = Some (cat_item 1 PNan), is_last_wrong = True\<rparr>"
  have h1: "(0::int) < max_success_number (cat_tutor 1 PNan 3)"
    by (simp add: cat_tutor_def)
  have h2: "get_item 30 (cat_tutor 1 PNan 3) 0 739000 = Inr (cat_item 1 PNan, cat_tutor 1 PNan 3)"
    by (simp add: item_defs cat_defs)
  have h4: "is_last_wrong ?s" by simp
  have o: "old_item ?s = Some (cat_item 1 PNan)" by simp
  have i: "index (cat_item 1 PNan) = Some 0" by (simp add: cat_item_def)
  from old_item_is_real_when_last_wrong [OF h1 h2 loop_cat_dog h4]
  obtain it j n where "old_item ?s = Some it" "it \<noteq> WTItem_empty" "truthy (word it)"
    "index it = Some j" "success_number it = PInt n"
    "\<forall>t'. fst (bonus_correction (?s\<lparr>self := t'\<rparr>)) = None"
    by blast
  with o i have "\<exists>it n. old_item ?s = Some it \<and> it \<noteq> WTItem_empty \<and> truthy (word it) \<and>
           index it = Some 0 \<and> success_number it = PInt n \<and>
           (\<forall>t'. fst (bonus_correction (?s\<lparr>self := t'\<rparr>)) = None)"
    by auto
  with h1 h2 loop_cat_dog h4 o show ?thesis
    by blast
qed

section \<open>The end of the loop\<close>

lemma cell_ok_set_learning_state:
  "cell_ok (set_learning_state item d) = (case success_number item of PStr s \<Rightarrow> False | _ \<Rightarrow> True)"
  by (simp add: cell_ok_def set_learning_state_def update_conv')

lemma py_add_comparable: "py_add v k = Inr v' \<Longrightarrow> comparable v'"
  by (cases v) (auto simp: comparable_def)

lemma say_ok: "success_column_ok (vocabulary_frame (say t e)) = success_column_ok (vocabulary_frame t)"
  by (simp add: say_def)

lemma update_item_in_frame_ok:
  assumes "success_column_ok (vocabulary_frame t)" and "comparable (success_number item)"
  shows "success_column_ok (vocabulary_frame (update_item_in_frame t item))"
proof -
  have c: "cell_ok (set_learning_state item d)" for d
    using assms(2) by (simp add: cell_ok_set_learning_state comparable_def)
  have "list_all cell_ok ((vocabulary_frame t)[i := set_learning_state item (vocabulary_frame t ! i)])" for i
    using assms(1) c unfolding success_column_ok_def list_all_iff
    by (metis insert_iff set_update_subset_insert subsetD)
  with assms(1) c show ?thesis
    by (simp add: update_item_in_frame_def success_column_ok_def split: option.splits)
qed

lemma reset_tutor_ok:
  assumes "success_column_ok (vocabulary_frame t)"
  shows "success_column_ok (vocabulary_frame (reset_tutor t i))"
  unfolding reset_tutor_def
  by (rule update_item_in_frame_ok) (simp_all add: assms say_def reset_item_def comparable_def)

lemma get_item_ok:
  assumes "get_item cbt t i today = Inr (it, t')" and "success_column_ok (vocabulary_frame t)"
  shows "success_column_ok (vocabulary_frame t')"
  using get_item_tutor [OF assms(1)] assms(2) reset_tutor_ok by auto

lemma finish_turn_ok:
  assumes "success_column_ok (vocabulary_frame (self s))"
  shows "success_column_ok (vocabulary_frame (self (snd (finish_turn cbt s i item today))))"
proof (cases "get_item cbt (say (self s) (Successes (success_number item))) i today")
  case (Inl e)
  with assms show ?thesis
    by (simp add: finish_turn_def Let_def say_ok)
next
  case (Inr p)
  obtain it t' where p: "p = (it, t')" by (cases p)
  from get_item_ok [OF Inr [unfolded p]] assms have "success_column_ok (vocabulary_frame t')"
    by (simp add: say_ok)
  with Inr p show ?thesis
    by (simp add: finish_turn_def Let_def)
qed

lemma grade_ok:
  assumes "success_column_ok (vocabulary_frame (self s))"
  shows "success_column_ok (vocabulary_frame (self (snd (grade cbt s i item ras answer today))))"
proof (cases "answer \<in> set ras")
  case True
  show ?thesis
  proof (cases "py_add (success_number item) 1")
    case (Inl e)
    with True assms show ?thesis
      by (simp add: grade_def Let_def say_ok)
  next
    case (Inr n)
    have u: "success_column_ok (vocabulary_frame
        (update_item_in_frame (say (self s) (RightAnswer (transcription item)))
           (item\<lparr>success_number := n\<rparr>)))"
      using assms py_add_comparable [OF Inr]
      by (intro update_item_in_frame_ok) (simp_all add: say_ok)
    from True Inr u show ?thesis
      by (auto simp: grade_def Let_def say_ok split: sum.splits intro!: finish_turn_ok)
  qed
next
  case False
  show ?thesis
  proof (cases "py_add (success_number item) (- 1)")
    case (Inl e)
    with False assms show ?thesis
      by (simp add: grade_def Let_def say_ok)
  next
    case (Inr n)
    show ?thesis
    proof (cases "if answer = [] then py_add n (- 1) else Inr n")
      case (Inl e)
      with False Inr assms show ?thesis
        by (simp add: grade_def Let_def say_ok)
    next
      case n1: (Inr n1)
      have "comparable n1"
        using n1 py_add_comparable [OF Inr] py_add_comparable [of n "- 1" n1]
        by (auto split: if_splits)
      then have u: "success_column_ok (vocabulary_frame
          (update_item_in_frame (say (self s) (WrongAnswer ras (transcription item)))
             (item\<lparr>success_number := n1\<rparr>)))"
        using assms by (intro update_item_in_frame_ok) (simp_all add: say_ok)
      from False Inr n1 u show ?thesis
        by (auto simp: grade_def Let_def intro!: finish_turn_ok)
    qed
  qed
qed

lemma bonus_correction_ok:
  assumes "success_column_ok (vocabulary_frame (self s))"
  shows "success_column_ok (vocabulary_frame (self (snd (bonus_correction s))))"
proof (cases "old_item s")
  case None
  with assms show ?thesis
    by (simp add: bonus_correction_def)
next
  case (Some old)
  show ?thesis
  proof (cases "py_add (success_number old) 2")
    case (Inl e)
    with Some assms show ?thesis
      by (simp add: bonus_correction_def)
  next
    case (Inr n)
    have u: "success_column_ok (vocabulary_frame
        (update_item_in_frame (say (self s) (OldWordSuccesses (word old) n))
           (old\<lparr>success_number := n\<rparr>)))"
      using assms py_add_comparable [OF Inr]
      by (intro update_item_in_frame_ok) (simp_all add: say_ok)
    from Some Inr u show ?thesis
      by (auto simp: bonus_correction_def Let_def say_ok split: sum.splits)
  qed
qed

lemma turn_ok:
  assumes "success_column_ok (vocabulary_frame (self s))"
  shows "success_column_ok (vocabulary_frame (self (snd (turn cbt s env))))"
proof (cases "vocabulary (self s) = []")
  case True
  with assms show ?thesis
    by (simp add: turn_def vocabulary_size_def)
next
  case ne: False
  let ?i = "rnd env mod length (vocabulary (self s))"
  show ?thesis
  proof (cases "get_item cbt (self s) ?i (today_first env)")
    case (Inl e)
    with ne assms show ?thesis
      by (simp add: turn_def vocabulary_size_def Let_def)
  next
    case (Inr p)
    obtain item t1 where p: "p = (item, t1)" by (cases p)
    note g = Inr [unfolded p]
    have ok1: "success_column_ok (vocabulary_frame t1)"
      using get_item_ok [OF g assms] .
    show ?thesis
    proof (cases "truthy (word item)")
      case False
      with ne g ok1 show ?thesis
        by (simp add: turn_def vocabulary_size_def Let_def)
    next
      case True
      show ?thesis
      proof (cases "\<exists>tr. translation item = PStr tr")
        case False
        with ne g True ok1 show ?thesis
          by (cases "translation item") (simp_all add: turn_def vocabulary_size_def Let_def)
      next
        case tr: True
        then obtain tr where tr: "translation item = PStr tr" by blast
        let ?s2 = "s\<lparr>self := say t1 (WordPrompt (word item))\<rparr>"
        have ok2: "success_column_ok (vocabulary_frame (self ?s2))"
          using ok1 by (simp add: say_ok)
        obtain x s3 where bc: "bonus_correction ?s2 = (x, s3)"
          by (cases "bonus_correction ?s2")
        have ok3: "success_column_ok (vocabulary_frame (self s3))"
          using bonus_correction_ok [OF ok2] bc by simp
        have ok4: "success_column_ok (vocabulary_frame (self (s3\<lparr>self := say (self s3) (WordPrompt (word item))\<rparr>)))"
          using ok3 by (simp add: say_ok)
        show ?thesis
          unfolding turn_unfold [OF ne g True tr]
          using ok2 ok3 grade_ok [OF ok2] grade_ok [OF ok4] bc
          by (cases x) (simp_all add: say_ok)
      qed
    qed
  qed
qed

lemma loop_exited_ok:
  assumes "loop cbt s envs = Exited s'" and "success_column_ok (vocabulary_frame (self s))"
  shows "success_column_ok (vocabulary_frame (self s'))"
  using assms
proof (induction envs arbitrary: s)
  case Nil
  then show ?case by simp
next
  case (Cons env envs)
  obtain sig s1 where t: "turn cbt s env = (sig, s1)"
    by (cases "turn cbt s env")
  have ok1: "success_column_ok (vocabulary_frame (self s1))"
    using turn_ok [OF Cons.prems(2), of cbt env] t by simp
  show ?case
  proof (cases sig)
    case Next
    with t Cons.prems(1) have "loop cbt s1 envs = Exited s'" by simp
    from Cons.IH [OF this ok1] show ?thesis .
  next
    case Stop
    with t Cons.prems(1) ok1 show ?thesis by simp
  next
    case (Raised e)
    with t Cons.prems(1) ok1 show ?thesis
      by (auto simp: say_ok split: if_splits)
  qed
qed






lemma run_first_item_error:
  assumes "get_item cbt t 0 today = Inl e"
  shows "run cbt t today envs locks = Crashed e t"
  using assms by (simp add: run_def)






end
